theory Spec2Isabelle
  imports Main "HOL-Library.Word"
begin

section \<open>The ARPA to minimal-perfect-hash language model builder\<close>

text \<open>
  A shallow embedding of \<^verbatim>\<open>src/lm/mph_language_model.cpp\<close>: the ARPA reader
  \<^verbatim>\<open>read_from_arpa\<close>, the class \<^verbatim>\<open>ngram_handler\<close> with its members
  \<^verbatim>\<open>count\<close>, \<^verbatim>\<open>operator()\<close> and \<^verbatim>\<open>finish_order\<close>, and the driver
  \<^verbatim>\<open>build_from_arpa\<close>.

  \<^item> \<^verbatim>\<open>uint64_t\<close> and \<^verbatim>\<open>size_t\<close> are 64-bit words, so that \<open>+\<close> and \<open>-\<close> wrap.
  \<^item> A \<^verbatim>\<open>float\<close> is only parsed, stored and handed on, never computed with: it is its
    IEEE-754 binary32 bit pattern, a 32-bit word, and \<^verbatim>\<open>0.0\<close> is the pattern \<open>0\<close>.
  \<^item> An exception, a failed \<^verbatim>\<open>assert\<close>, a dereferenced null \<^verbatim>\<open>unique_ptr\<close> and a
    \<^verbatim>\<open>std::vector\<close> read past its end are values of the type \<open>error\<close>; a failing
    operation returns the error together with the handler as it was at that moment.
  \<^item> What the program does to the outside world (the file system, the builders, the
    maps) is recorded, in order, in the field \<open>trace\<close> of the handler.
  \<^item> The member names \<^verbatim>\<open>prefix_\<close>, \<^verbatim>\<open>order_\<close>, ... end in an underscore, which is not a
    legal name here: the fields are \<open>h_prefix\<close>, \<open>h_order\<close>, ...
  \<^item> Every \<^verbatim>\<open>assert\<close> is checked, as in a build without \<^verbatim>\<open>NDEBUG\<close>. Allocation
    (\<^verbatim>\<open>emplace_back\<close>, \<^verbatim>\<open>reserve\<close>, \<^verbatim>\<open>make_unique\<close>) does not fail.
  \<^item> The \<^verbatim>\<open>LOG(info)\<close> lines are left out.
\<close>

subsection \<open>Values, errors and effects\<close>

type_synonym uint64 = "64 word"

type_synonym float = "32 word"

text \<open>\<^verbatim>\<open>prob_backoff<>\<close>, the value stored for every order but the last.\<close>

record prob_backoff =
  prob :: float
  backoff :: float

datatype error =
    Runtime_error string  \<comment> \<open>\<^verbatim>\<open>std::runtime_error\<close> with its message\<close>
  | Stof_error  \<comment> \<open>\<^verbatim>\<open>std::stof\<close> threw (\<^verbatim>\<open>invalid_argument\<close> or \<^verbatim>\<open>out_of_range\<close>)\<close>
  | Stoul_error  \<comment> \<open>\<^verbatim>\<open>std::stoul\<close> threw\<close>
  | Substr_out_of_range  \<comment> \<open>\<^verbatim>\<open>std::string::substr\<close> with a position past the end\<close>
  | Assertion_failed  \<comment> \<open>an \<^verbatim>\<open>assert\<close> that does not hold\<close>
  | Null_pointer  \<comment> \<open>a null \<^verbatim>\<open>unique_ptr\<close> dereferenced\<close>
  | Index_out_of_range  \<comment> \<open>\<^verbatim>\<open>counts_[i]\<close> with \<open>i\<close> not below \<^verbatim>\<open>counts_.size()\<close>\<close>

datatype builder_kind = Unigram | Middle | Last

text \<open>Modelled from the spec: \<^verbatim>\<open>filesystem::remove_all\<close> and \<^verbatim>\<open>filesystem::make_directory\<close>
  of \<^verbatim>\<open>meta/io/filesystem.h\<close>, and the constructor, the call operator and \<^verbatim>\<open>write\<close> of
  \<^verbatim>\<open>ngram_map_builder\<close> and the constructor of \<^verbatim>\<open>ngram_map\<close> of \<^verbatim>\<open>meta/lm/ngram_map.h\<close>,
  none of which is among the sources. What each does to the disk is not modelled: a
  call is an event, recorded with its arguments in the order the calls are made.\<close>

datatype event =
    Fs_remove_all string  \<comment> \<open>\<^verbatim>\<open>filesystem::remove_all\<close>\<close>
  | Fs_make_directory string  \<comment> \<open>\<^verbatim>\<open>filesystem::make_directory\<close>\<close>
  | Builder_new builder_kind string uint64  \<comment> \<open>a builder constructed: kind, prefix, number of keys\<close>
  | Insert_unigram string prob_backoff  \<comment> \<open>\<^verbatim>\<open>(*unigram_builder_)(ngram, value)\<close>\<close>
  | Insert_middle "uint64 list" prob_backoff  \<comment> \<open>\<^verbatim>\<open>(*middle_builder_)(ids, value)\<close>\<close>
  | Insert_last "uint64 list" float  \<comment> \<open>\<^verbatim>\<open>(*last_builder_)(ids, prob)\<close>\<close>
  | Builder_write builder_kind string  \<comment> \<open>\<^verbatim>\<open>write()\<close> on the builder of that prefix\<close>
  | Builder_delete builder_kind string  \<comment> \<open>the \<^verbatim>\<open>unique_ptr\<close> lets go of the builder\<close>
  | Map_open string  \<comment> \<open>an \<^verbatim>\<open>ngram_map<std::string>\<close> opened at that path\<close>

subsection \<open>Strings of the standard library\<close>

definition backslash :: char where
  "backslash = CHR 0x5C"

definition tab :: char where
  "tab = CHR 0x09"

definition newline :: char where
  "newline = CHR 0x0A"

definition npos :: uint64 where
  "npos = - 1"

text \<open>\<^verbatim>\<open>s.find_first_of(c, pos)\<close>: the first position at or after \<open>pos\<close> that holds
  \<open>c\<close>, and \<^verbatim>\<open>npos\<close> when there is none.\<close>

definition find_first_of :: "string \<Rightarrow> char \<Rightarrow> uint64 \<Rightarrow> uint64" where
  "find_first_of s c pos =
     (let t = drop (unat pos) s
      in if c \<in> set t then of_nat (unat pos + length (takeWhile (\<lambda>x. x \<noteq> c) t)) else npos)"

text \<open>\<^verbatim>\<open>s.substr(pos, n)\<close>: throws when \<open>pos\<close> is past the end, and stops at the end
  of the string when fewer than \<open>n\<close> characters are left.\<close>

definition substr :: "string \<Rightarrow> uint64 \<Rightarrow> uint64 \<Rightarrow> string option" where
  "substr s pos n =
     (if length s < unat pos then None else Some (take (unat n) (drop (unat pos) s)))"

text \<open>\<^verbatim>\<open>s.find(t) == 0\<close>: the string begins with \<open>t\<close>.\<close>

definition starts_with :: "string \<Rightarrow> string \<Rightarrow> bool" where
  "starts_with s t = (take (length t) s = t)"

text \<open>\<^verbatim>\<open>s[i]\<close> for \<open>i\<close> up to the length: the character past the end is the
  terminating null.\<close>

definition char_at :: "string \<Rightarrow> nat \<Rightarrow> char" where
  "char_at s i = (if i < length s then s ! i else CHR 0x00)"

text \<open>\<^verbatim>\<open>std::to_string\<close> on an unsigned number.\<close>

fun to_string :: "nat \<Rightarrow> string" where
  "to_string n =
     (if n < 10 then [''0123456789'' ! n]
      else to_string (n div 10) @ [''0123456789'' ! (n mod 10)])"

declare to_string.simps [simp del]

text \<open>\<^verbatim>\<open>std::getline\<close> until it fails: the lines of a file. A last line without a
  newline is still a line; nothing after the last newline is not.\<close>

fun getlines :: "string \<Rightarrow> string \<Rightarrow> string list" where
  "getlines acc [] = (if acc = [] then [] else [rev acc])"
| "getlines acc (c # cs) =
     (if c = newline then rev acc # getlines [] cs else getlines (c # acc) cs)"

subsection \<open>Builders and maps\<close>

text \<open>Modelled from the spec: \<^verbatim>\<open>ngram_map_builder\<close> of \<^verbatim>\<open>meta/lm/ngram_map.h\<close>, which is
  not among the sources. A builder is created with its options (the output prefix and
  the expected number of keys) and accumulates the keys and values it is called with.\<close>

record ('k, 'v) ngram_map_builder =
  prefix :: string
  num_keys :: uint64
  entries :: "('k \<times> 'v) list"

text \<open>Modelled from the spec: the constructor of \<^verbatim>\<open>ngram_map_builder\<close>, from its options.\<close>

definition make_builder :: "string \<Rightarrow> uint64 \<Rightarrow> ('k, 'v) ngram_map_builder" where
  "make_builder p n = \<lparr>prefix = p, num_keys = n, entries = []\<rparr>"

text \<open>Modelled from the spec: the call operator of \<^verbatim>\<open>ngram_map_builder\<close>, which takes one
  more key with its value.\<close>

definition builder_call :: "('k, 'v) ngram_map_builder \<Rightarrow> 'k \<Rightarrow> 'v \<Rightarrow> ('k, 'v) ngram_map_builder" where
  "builder_call b k v = b\<lparr>entries := entries b @ [(k, v)]\<rparr>"

text \<open>Modelled from the spec: \<^verbatim>\<open>ngram_map<std::string>\<close> of \<^verbatim>\<open>meta/lm/ngram_map.h\<close>,
  which is not among the sources. The map opened at the prefix a builder wrote to is
  the map over what that builder received. How a word gets its id is the business of
  the perfect hash, which the spec leaves open: the functions below take
  \<^verbatim>\<open>ngram_map::index\<close> as the parameter \<open>index\<close>.\<close>

record ngram_map =
  map_prefix :: string
  map_entries :: "(string \<times> prob_backoff) list"

type_synonym index_fn = "ngram_map \<Rightarrow> string \<Rightarrow> uint64 option"

subsection \<open>The handler\<close>

record ngram_handler =
  h_prefix :: string
  h_order :: uint64
  h_observed :: uint64
  h_counts :: "uint64 list"
  unigram_builder :: "(string, prob_backoff) ngram_map_builder option"
  unigrams :: "ngram_map option"
  middle_builder :: "(uint64 list, prob_backoff) ngram_map_builder option"
  last_builder :: "(uint64 list, float) ngram_map_builder option"
  trace :: "event list"

type_synonym result = "(error \<times> ngram_handler) + ngram_handler"

text \<open>The constructor; \<open>tr\<close> is what has happened to the outside world so far.\<close>

definition new_handler :: "string \<Rightarrow> event list \<Rightarrow> ngram_handler" where
  "new_handler p tr =
     \<lparr>h_prefix = p, h_order = 0, h_observed = 0, h_counts = [],
      unigram_builder = None, unigrams = None, middle_builder = None, last_builder = None,
      trace = tr\<rparr>"

definition emit :: "event list \<Rightarrow> ngram_handler \<Rightarrow> ngram_handler" where
  "emit es st = st\<lparr>trace := trace st @ es\<rparr>"

text \<open>Assigning to a \<^verbatim>\<open>unique_ptr\<close> destroys the object it held, if any.\<close>

definition dropped :: "builder_kind \<Rightarrow> ('k, 'v) ngram_map_builder option \<Rightarrow> event list" where
  "dropped k old = (case old of None \<Rightarrow> [] | Some b \<Rightarrow> [Builder_delete k (prefix b)])"

definition count :: "ngram_handler \<Rightarrow> uint64 \<Rightarrow> ngram_handler" where
  "count st ngram_count =
     (let st1 = st\<lparr>h_counts := h_counts st @ [ngram_count]\<rparr>
      in if length (h_counts st1) = 1
         then let p = h_prefix st1 @ ''/0/''
              in (emit ([Fs_make_directory p, Builder_new Unigram p ngram_count]
                        @ dropped Unigram (unigram_builder st1)) st1)
                   \<lparr>unigram_builder := Some (make_builder p ngram_count)\<rparr>
         else st1)"

text \<open>\<^verbatim>\<open>counts_[i]\<close>.\<close>

definition counts_at :: "ngram_handler \<Rightarrow> uint64 \<Rightarrow> uint64 option" where
  "counts_at st i = (if unat i < length (h_counts st) then Some (h_counts st ! unat i) else None)"

text \<open>\<^verbatim>\<open>counts_.size() - 1\<close>, in \<^verbatim>\<open>size_t\<close>.\<close>

definition last_index :: "ngram_handler \<Rightarrow> uint64" where
  "last_index st = of_nat (length (h_counts st)) - 1"

text \<open>The options of the next builder: \<^verbatim>\<open>prefix_ + "/" + std::to_string(order_ + 1)\<close>.\<close>

definition next_prefix :: "ngram_handler \<Rightarrow> string" where
  "next_prefix st = h_prefix st @ ''/'' @ to_string (unat (h_order st + 1))"

definition finish_order :: "ngram_handler \<Rightarrow> result" where
  "finish_order st0 =
     (let st = st0\<lparr>h_observed := 0\<rparr>
      in if h_order st = 0 then
           (case unigram_builder st of
              None \<Rightarrow> Inl (Assertion_failed, st)
            | Some ub \<Rightarrow>
                let st1 = (emit [Builder_write Unigram (prefix ub),
                                 Builder_delete Unigram (prefix ub)] st)
                            \<lparr>unigram_builder := None\<rparr>;
                    st2 = (emit [Map_open (h_prefix st1 @ ''/0'')] st1)
                            \<lparr>unigrams := Some \<lparr>map_prefix = h_prefix st1 @ ''/0'',
                                                map_entries = entries ub\<rparr>\<rparr>
                in (case counts_at st2 (h_order st2 + 1) of
                      None \<Rightarrow> Inl (Index_out_of_range, st2)
                    | Some n \<Rightarrow>
                        Inr ((emit ([Fs_make_directory (next_prefix st2),
                                     Builder_new Middle (next_prefix st2) n]
                                    @ dropped Middle (middle_builder st2)) st2)
                               \<lparr>middle_builder := Some (make_builder (next_prefix st2) n)\<rparr>)))
         else if h_order st < last_index st then
           (case middle_builder st of
              None \<Rightarrow> Inl (Assertion_failed, st)
            | Some mb \<Rightarrow>
                let st1 = emit [Builder_write Middle (prefix mb)] st
                in if h_order st1 + 1 < last_index st1 then
                     (case counts_at st1 (h_order st1 + 1) of
                        None \<Rightarrow> Inl (Index_out_of_range, st1)
                      | Some n \<Rightarrow>
                          Inr ((emit [Fs_make_directory (next_prefix st1),
                                      Builder_new Middle (next_prefix st1) n,
                                      Builder_delete Middle (prefix mb)] st1)
                                 \<lparr>middle_builder := Some (make_builder (next_prefix st1) n)\<rparr>))
                   else
                     (let st2 = (emit [Builder_delete Middle (prefix mb)] st1)
                                  \<lparr>middle_builder := None\<rparr>
                      in case counts_at st2 (h_order st2 + 1) of
                           None \<Rightarrow> Inl (Index_out_of_range, st2)
                         | Some n \<Rightarrow>
                             Inr ((emit ([Fs_make_directory (next_prefix st2),
                                          Builder_new Last (next_prefix st2) n]
                                         @ dropped Last (last_builder st2)) st2)
                                    \<lparr>last_builder := Some (make_builder (next_prefix st2) n)\<rparr>)))
         else
           (case last_builder st of
              None \<Rightarrow> Inl (Assertion_failed, st)
            | Some lb \<Rightarrow>
                Inr ((emit [Builder_write Last (prefix lb), Builder_delete Last (prefix lb)] st)
                       \<lparr>last_builder := None\<rparr>)))"

text \<open>Modelled from the spec: \<^verbatim>\<open>util::for_each_token\<close> of \<^verbatim>\<open>meta/util/algorithm.h\<close>,
  which is not among the sources. It cuts the text at every character of the
  delimiters and calls back on each piece between two cuts, empty pieces included (the
  callback of the handler skips the empty ones itself).\<close>

fun for_each_token :: "string \<Rightarrow> string \<Rightarrow> string \<Rightarrow> string list" where
  "for_each_token delims acc [] = [rev acc]"
| "for_each_token delims acc (c # cs) =
     (if c \<in> set delims then rev acc # for_each_token delims [] cs
      else for_each_token delims (c # acc) cs)"

text \<open>The callback of \<^verbatim>\<open>operator()\<close> run over the pieces: a piece that is not empty
  is looked up in the vocabulary, the first one without an id is thrown, otherwise its
  id is pushed back.\<close>

fun resolve :: "(string \<Rightarrow> uint64 option) \<Rightarrow> string list \<Rightarrow> uint64 list \<Rightarrow> string + uint64 list" where
  "resolve idx [] ids = Inr ids"
| "resolve idx (t # ts) ids =
     (if t \<noteq> [] then
        (case idx t of None \<Rightarrow> Inl t | Some i \<Rightarrow> resolve idx ts (ids @ [i]))
      else resolve idx ts ids)"

text \<open>Lines 102 to 106 of \<^verbatim>\<open>operator()\<close>: a tuple of a higher order closes the
  current one.\<close>

definition advance :: "ngram_handler \<Rightarrow> uint64 \<Rightarrow> result" where
  "advance st ord =
     (if h_order st < ord then
        (case finish_order st of
           Inl x \<Rightarrow> Inl x
         | Inr st1 \<Rightarrow> Inr (st1\<lparr>h_order := ord\<rparr>))
      else Inr st)"

text \<open>Lines 113 to 155 of \<^verbatim>\<open>operator()\<close>: the gram goes to the builder.\<close>

definition forward :: "index_fn \<Rightarrow> ngram_handler \<Rightarrow> uint64 \<Rightarrow> string \<Rightarrow> float \<Rightarrow> float \<Rightarrow> result" where
  "forward index st ord ngram p b =
     (if h_order st = 0 then
        (case unigram_builder st of
           None \<Rightarrow> Inl (Assertion_failed, st)
         | Some ub \<Rightarrow>
             Inr ((emit [Insert_unigram ngram \<lparr>prob = p, backoff = b\<rparr>] st)
                    \<lparr>unigram_builder := Some (builder_call ub ngram \<lparr>prob = p, backoff = b\<rparr>)\<rparr>))
      else if middle_builder st = None \<and> last_builder st = None then Inl (Assertion_failed, st)
      else
        (case unigrams st of
           None \<Rightarrow> Inl (Assertion_failed, st)
         | Some vocab \<Rightarrow>
             (case resolve (index vocab) (for_each_token '' '' [] ngram) [] of
                Inl unigram \<Rightarrow>
                  Inl (Runtime_error (''ngram contains unknown unigram '' @ unigram), st)
              | Inr ids \<Rightarrow>
                  if of_nat (length ids) \<noteq> ord + 1 then Inl (Assertion_failed, st)
                  else if h_order st \<noteq> last_index st then
                    (case middle_builder st of
                       None \<Rightarrow> Inl (Null_pointer, st)
                     | Some mb \<Rightarrow>
                         Inr ((emit [Insert_middle ids \<lparr>prob = p, backoff = b\<rparr>] st)
                                \<lparr>middle_builder :=
                                   Some (builder_call mb ids \<lparr>prob = p, backoff = b\<rparr>)\<rparr>))
                  else
                    (case last_builder st of
                       None \<Rightarrow> Inl (Null_pointer, st)
                     | Some lb \<Rightarrow>
                         Inr ((emit [Insert_last ids p] st)
                                \<lparr>last_builder := Some (builder_call lb ids p)\<rparr>)))))"

text \<open>\<^verbatim>\<open>ngram_handler::operator()\<close>.\<close>

definition handle :: "index_fn \<Rightarrow> ngram_handler \<Rightarrow> uint64 \<Rightarrow> string \<Rightarrow> float \<Rightarrow> float \<Rightarrow> result" where
  "handle index st ord ngram p b =
     (case advance st ord of
        Inl x \<Rightarrow> Inl x
      | Inr st1 \<Rightarrow>
          let st2 = st1\<lparr>h_observed := h_observed st1 + 1\<rparr>
          in (case counts_at st2 ord of
                None \<Rightarrow> Inl (Index_out_of_range, st2)
              | Some n \<Rightarrow>
                  if n < h_observed st2
                  then Inl (Runtime_error (''too many '' @ to_string (unat (ord + 1)) @ ''-grams''), st2)
                  else forward index st2 ord ngram p b))"

subsection \<open>The reader\<close>

text \<open>\<^verbatim>\<open>read_from_arpa\<close> is a template over its handler: \<open>cnt\<close> is the handler's
  \<^verbatim>\<open>count\<close> and \<open>hdl\<close> its \<^verbatim>\<open>operator()\<close>. \<^verbatim>\<open>std::stoul\<close> and \<^verbatim>\<open>std::stof\<close> are the
  parameters \<open>stoul\<close> and \<open>stof\<close>, which give \<open>None\<close> where the library throws.\<close>

type_synonym stoul_fn = "string \<Rightarrow> uint64 option"

type_synonym stof_fn = "string \<Rightarrow> float option"

text \<open>The body of the first loop for a line that begins with \<^verbatim>\<open>"ngram "\<close>.\<close>

definition count_line :: "stoul_fn \<Rightarrow> ('h \<Rightarrow> uint64 \<Rightarrow> 'h) \<Rightarrow> 'h \<Rightarrow> string \<Rightarrow> (error \<times> 'h) + 'h" where
  "count_line stoul cnt h buffer =
     (let equal = find_first_of buffer (CHR ''='') 0
      in case substr buffer (equal + 1) npos of
           None \<Rightarrow> Inl (Substr_out_of_range, h)
         | Some s \<Rightarrow>
             (case stoul s of
                None \<Rightarrow> Inl (Stoul_error, h)
              | Some n \<Rightarrow> Inr (cnt h n)))"

text \<open>The first loop: up to the line that begins the unigram data. It gives the
  handler and the lines not read yet.\<close>

fun read_header :: "stoul_fn \<Rightarrow> ('h \<Rightarrow> uint64 \<Rightarrow> 'h) \<Rightarrow> 'h \<Rightarrow> string list \<Rightarrow> (error \<times> 'h) + ('h \<times> string list)" where
  "read_header stoul cnt h [] = Inr (h, [])"
| "read_header stoul cnt h (buffer # rest) =
     (case (if starts_with buffer ''ngram '' then count_line stoul cnt h buffer else Inr h) of
        Inl x \<Rightarrow> Inl x
      | Inr h1 \<Rightarrow>
          if starts_with buffer (backslash # ''1-grams:'') then Inr (h1, rest)
          else read_header stoul cnt h1 rest)"

text \<open>Lines 59 to 65: a data line gives the gram, its probability and its backoff.\<close>

definition parse_line :: "stof_fn \<Rightarrow> string \<Rightarrow> error + (string \<times> float \<times> float)" where
  "parse_line stof buffer =
     (let first_tab = find_first_of buffer tab 0
      in case substr buffer 0 first_tab of
           None \<Rightarrow> Inl Substr_out_of_range
         | Some ps \<Rightarrow>
             (case stof ps of
                None \<Rightarrow> Inl Stof_error
              | Some p \<Rightarrow>
                  let second_tab = find_first_of buffer tab (first_tab + 1)
                  in (case substr buffer (first_tab + 1) (second_tab - first_tab - 1) of
                        None \<Rightarrow> Inl Substr_out_of_range
                      | Some ngram \<Rightarrow>
                          if second_tab \<noteq> npos then
                            (case substr buffer (second_tab + 1) npos of
                               None \<Rightarrow> Inl Substr_out_of_range
                             | Some bs \<Rightarrow>
                                 (case stof bs of
                                    None \<Rightarrow> Inl Stof_error
                                  | Some b \<Rightarrow> Inr (ngram, p, b)))
                          else Inr (ngram, p, 0))))"

text \<open>The three kinds of line of the second loop.\<close>

definition skipped :: "string \<Rightarrow> bool" where
  "skipped buffer \<longleftrightarrow>
     buffer = [] \<or> (char_at buffer 0 = backslash \<and> char_at buffer 1 = CHR ''e'')"

definition section_start :: "string \<Rightarrow> bool" where
  "section_start buffer \<longleftrightarrow> char_at buffer 0 = backslash"

text \<open>The second loop.\<close>

fun read_data :: "stof_fn \<Rightarrow> ('h \<Rightarrow> uint64 \<Rightarrow> string \<Rightarrow> float \<Rightarrow> float \<Rightarrow> (error \<times> 'h) + 'h) \<Rightarrow> uint64 \<Rightarrow> 'h \<Rightarrow> string list \<Rightarrow> (error \<times> 'h) + 'h" where
  "read_data stof hdl ord h [] = Inr h"
| "read_data stof hdl ord h (buffer # rest) =
     (if skipped buffer then read_data stof hdl ord h rest
      else if section_start buffer then read_data stof hdl (ord + 1) h rest
      else
        (case parse_line stof buffer of
           Inl e \<Rightarrow> Inl (e, h)
         | Inr (ngram, p, b) \<Rightarrow>
             (case hdl h ord ngram p b of
                Inl x \<Rightarrow> Inl x
              | Inr h1 \<Rightarrow> read_data stof hdl ord h1 rest)))"

text \<open>\<^verbatim>\<open>read_from_arpa\<close>; \<open>file\<close> is what the stream opened on the file name reads
  (nothing when the file cannot be opened).\<close>

definition read_from_arpa :: "stoul_fn \<Rightarrow> stof_fn \<Rightarrow> ('h \<Rightarrow> uint64 \<Rightarrow> 'h) \<Rightarrow> ('h \<Rightarrow> uint64 \<Rightarrow> string \<Rightarrow> float \<Rightarrow> float \<Rightarrow> (error \<times> 'h) + 'h) \<Rightarrow> string \<Rightarrow> 'h \<Rightarrow> (error \<times> 'h) + 'h" where
  "read_from_arpa stoul stof cnt hdl file h =
     (case read_header stoul cnt h (getlines [] file) of
        Inl x \<Rightarrow> Inl x
      | Inr (h1, rest) \<Rightarrow> read_data stof hdl 0 h1 rest)"

subsection \<open>The driver\<close>

text \<open>\<^verbatim>\<open>build_from_arpa\<close>. Its calls of \<^verbatim>\<open>filesystem::remove_all\<close> and
  \<^verbatim>\<open>filesystem::make_directory\<close> come before the handler is constructed: they are the
  two events the handler's trace begins with. On success the result is
  \<^verbatim>\<open>handler.order()\<close>, with the handler as it is left.\<close>

definition build_from_arpa :: "stoul_fn \<Rightarrow> stof_fn \<Rightarrow> index_fn \<Rightarrow> string \<Rightarrow> string \<Rightarrow> (error \<times> ngram_handler) + (uint64 \<times> ngram_handler)" where
  "build_from_arpa stoul stof index file pfx =
     (let handler = new_handler pfx [Fs_remove_all pfx, Fs_make_directory pfx]
      in case read_from_arpa stoul stof count (handle index) file handler of
           Inl x \<Rightarrow> Inl x
         | Inr h \<Rightarrow>
             (case finish_order h of
                Inl x \<Rightarrow> Inl x
              | Inr h1 \<Rightarrow> Inr (h_order h1, h1)))"

subsection \<open>Concrete library functions and files, for the examples\<close>

text \<open>\<^verbatim>\<open>std::stoul\<close> on a string of decimal digits.\<close>

definition digit_value :: "char \<Rightarrow> nat" where
  "digit_value c = of_char c - 48"

definition is_digit :: "char \<Rightarrow> bool" where
  "is_digit c \<longleftrightarrow> c \<in> set ''0123456789''"

definition stoul_digits :: stoul_fn where
  "stoul_digits s =
     (if s \<noteq> [] \<and> list_all is_digit s \<and> length s \<le> 19
      then Some (of_nat (foldl (\<lambda>a c. 10 * a + digit_value c) 0 s))
      else None)"

text \<open>\<^verbatim>\<open>std::stof\<close> on the numbers of the examples, as binary32 bit patterns.\<close>

definition stof_table :: stof_fn where
  "stof_table s = map_of
     [(''-1.0'', 0xBF800000), (''-0.3'', 0xBE99999A), (''-2.0'', 0xC0000000),
      (''-0.1'', 0xBDCCCCCD), (''-3.0'', 0xC0400000), (''0.0'', 0),
      (''-0.5'', 0xBF000000), (''-0.7'', 0xBF333333)] s"

text \<open>A perfect hash: the id of a word is its place among the keys of the map.\<close>

fun position :: "string \<Rightarrow> string list \<Rightarrow> nat \<Rightarrow> uint64 option" where
  "position w [] i = None"
| "position w (k # ks) i = (if k = w then Some (of_nat i) else position w ks (Suc i))"

definition index_by_position :: index_fn where
  "index_by_position m w = position w (map fst (map_entries m)) 0"

text \<open>The file of the end-to-end scenario: three unigrams and two bigrams.\<close>

definition two_order_file :: string where
  "two_order_file =
     backslash # ''data'' @ backslash # newline #
     ''ngram 1=3'' @ newline #
     ''ngram 2=2'' @ newline #
     newline #
     backslash # ''1-grams:'' @ newline #
     ''-1.0'' @ tab # ''a'' @ tab # ''-0.3'' @ newline #
     ''-2.0'' @ tab # ''b'' @ tab # ''-0.1'' @ newline #
     ''-3.0'' @ tab # ''<unk>'' @ tab # ''0.0'' @ newline #
     newline #
     backslash # ''2-grams:'' @ newline #
     ''-0.5'' @ tab # ''a b'' @ newline #
     ''-0.7'' @ tab # ''b a'' @ newline #
     newline #
     backslash # ''end'' @ backslash # [newline]"

text \<open>The file of the count scenario: two unigrams declared, three supplied.\<close>

definition three_for_two_file :: string where
  "three_for_two_file =
     backslash # ''data'' @ backslash # newline #
     ''ngram 1=2'' @ newline #
     newline #
     backslash # ''1-grams:'' @ newline #
     ''-1.0'' @ tab # ''a'' @ newline #
     ''-2.0'' @ tab # ''b'' @ newline #
     ''-3.0'' @ tab # ''<unk>'' @ newline #
     newline #
     backslash # ''end'' @ backslash # [newline]"

subsection \<open>Outcomes, traces and stages of a build\<close>

text \<open>The error of an outcome, if it is one, and the handler it leaves.\<close>

definition failure :: "(error \<times> 's) + 'a \<Rightarrow> error option" where
  "failure r = (case r of Inl (e, s) \<Rightarrow> Some e | Inr a \<Rightarrow> None)"

definition final :: "result \<Rightarrow> ngram_handler" where
  "final r = (case r of Inl (e, st) \<Rightarrow> st | Inr st \<Rightarrow> st)"

text \<open>The number of builders the handler holds.\<close>

definition active_builders :: "ngram_handler \<Rightarrow> nat" where
  "active_builders st =
     (if unigram_builder st = None then 0 else 1)
     + (if middle_builder st = None then 0 else 1)
     + (if last_builder st = None then 0 else 1)"

text \<open>The builder the handler holds, when it holds one.\<close>

definition current_builder :: "ngram_handler \<Rightarrow> (builder_kind \<times> string) option" where
  "current_builder st =
     (case unigram_builder st of
        Some b \<Rightarrow> Some (Unigram, prefix b)
      | None \<Rightarrow>
          (case middle_builder st of
             Some b \<Rightarrow> Some (Middle, prefix b)
           | None \<Rightarrow>
               (case last_builder st of
                  Some b \<Rightarrow> Some (Last, prefix b)
                | None \<Rightarrow> None)))"

text \<open>Reading a trace from the left with the builder that is open (created and not
  written yet): a builder may be created only when none is open, and only the open
  builder may be written. The result is the builder open at the end, or \<open>None\<close>
  when the trace breaks the rule.\<close>

fun scan :: "(builder_kind \<times> string) option \<Rightarrow> event list \<Rightarrow> (builder_kind \<times> string) option option" where
  "scan cur [] = Some cur"
| "scan cur (Builder_new k p n # es) = (if cur = None then scan (Some (k, p)) es else None)"
| "scan cur (Builder_write k p # es) = (if cur = Some (k, p) then scan None es else None)"
| "scan cur (e # es) = scan cur es"

definition one_at_a_time :: "event list \<Rightarrow> bool" where
  "one_at_a_time tr \<longleftrightarrow> scan None tr \<noteq> None"

text \<open>The handlers a build goes through: it starts from the new handler, and calls
  \<^verbatim>\<open>count\<close>, \<^verbatim>\<open>operator()\<close> and \<^verbatim>\<open>finish_order\<close> on it for as long as none of them
  fails. The flag says whether the handler is still running (\<open>True\<close>) or is what a
  failed call left behind.\<close>

inductive stage :: "index_fn \<Rightarrow> string \<Rightarrow> bool \<Rightarrow> ngram_handler \<Rightarrow> bool" for index :: index_fn and pfx :: string where
  stage_new: "stage index pfx True (new_handler pfx [Fs_remove_all pfx, Fs_make_directory pfx])"
| stage_count: "stage index pfx True st \<Longrightarrow> stage index pfx True (count st n)"
| stage_handle: "stage index pfx True st \<Longrightarrow> handle index st ord ngram p b = Inr st' \<Longrightarrow> stage index pfx True st'"
| stage_handle_failed: "stage index pfx True st \<Longrightarrow> handle index st ord ngram p b = Inl (e, st') \<Longrightarrow> stage index pfx False st'"
| stage_finish: "stage index pfx True st \<Longrightarrow> finish_order st = Inr st' \<Longrightarrow> stage index pfx True st'"
| stage_finish_failed: "stage index pfx True st \<Longrightarrow> finish_order st = Inl (e, st') \<Longrightarrow> stage index pfx False st'"





subsection \<open>A build of three orders\<close>

text \<open>A build of three orders (two unigrams, one bigram, one trigram declared), after
  its header, after its two unigrams, after its bigram and after its trigram.\<close>

definition three_order_header :: ngram_handler where
  "three_order_header = count (count (count (new_handler ''lm'' []) 2) 1) 1"

definition three_order_unigrams :: ngram_handler where
  "three_order_unigrams =
     final (handle index_by_position
              (final (handle index_by_position three_order_header 0 ''a'' 0xBF800000 0xBE99999A))
              0 ''b'' 0xC0000000 0xBDCCCCCD)"

definition three_order_bigrams :: ngram_handler where
  "three_order_bigrams =
     final (handle index_by_position three_order_unigrams 1 ''a b'' 0xBF000000 0xBDCCCCCD)"

definition three_order_trigrams :: ngram_handler where
  "three_order_trigrams =
     final (handle index_by_position three_order_bigrams 2 ''a b a'' 0xBF333333 0)"


subsection \<open>Predicates on handlers and lines\<close>

text \<open>The handler of a build with one declared order, while it reads the unigrams.\<close>

definition unigram_only :: "ngram_handler \<Rightarrow> bool" where
  "unigram_only h \<longleftrightarrow> length (h_counts h) = 1 \<and> h_order h = 0 \<and> unigram_builder h \<noteq> None"

text \<open>The handler while the header is read: no tuple was handled yet, and the unigram
  builder exists as soon as a count was declared.\<close>

definition header_ok :: "ngram_handler \<Rightarrow> bool" where
  "header_ok h \<longleftrightarrow>
     h_order h = 0 \<and> h_observed h = 0 \<and> (h_counts h = [] \<or> unigram_builder h \<noteq> None)"

text \<open>A data line of the second loop and what it parses to: the line is not skipped,
  does not start a section, and \<^verbatim>\<open>std::stof\<close> accepts its numbers.\<close>

definition data_line :: "stof_fn \<Rightarrow> string \<Rightarrow> string \<times> float \<times> float \<Rightarrow> bool" where
  "data_line stof l t \<longleftrightarrow> \<not> skipped l \<and> \<not> section_start l \<and> parse_line stof l = Inr t"

text \<open>A file that declares one order only.\<close>

definition unigram_only_file :: string where
  "unigram_only_file =
     backslash # ''data'' @ backslash # newline #
     ''ngram 1=2'' @ newline #
     newline #
     backslash # ''1-grams:'' @ newline #
     ''-1.0'' @ tab # ''a'' @ newline #
     ''-2.0'' @ tab # ''b'' @ newline #
     newline #
     backslash # ''end'' @ backslash # [newline]"

text \<open>What holds of a running handler: it holds at most one builder, that builder is
  the one its trace leaves open, and it holds none before the first count. And what
  holds of the handler a failed call leaves behind.\<close>

definition running_inv :: "ngram_handler \<Rightarrow> bool" where
  "running_inv st \<longleftrightarrow>
     active_builders st \<le> 1
     \<and> scan None (trace st) = Some (current_builder st)
     \<and> (h_counts st = [] \<longrightarrow> current_builder st = None)"

definition stopped_inv :: "ngram_handler \<Rightarrow> bool" where
  "stopped_inv st \<longleftrightarrow> active_builders st \<le> 1 \<and> scan None (trace st) \<noteq> None"

subsection \<open>The maps a build writes\<close>








section \<open>Properties\<close>

subsection \<open>Evaluation\<close>

lemma unat_minus_1_64: "unat (- 1 :: 64 word) = 18446744073709551615"
  by (simp add: unsigned_minus_1_eq_mask mask_eq_exp_minus_1)

lemmas string_defs =
  find_first_of_def substr_def npos_def unat_minus_1_64 starts_with_def char_at_def
  backslash_def tab_def newline_def

lemmas handler_defs =
  count_def new_handler_def emit_def dropped_def make_builder_def builder_call_def
  counts_at_def last_index_def next_prefix_def finish_order_def advance_def forward_def
  handle_def

lemmas reader_defs =
  count_line_def parse_line_def skipped_def section_start_def read_from_arpa_def
  build_from_arpa_def

lemmas example_defs =
  stoul_digits_def is_digit_def digit_value_def stof_table_def index_by_position_def

lemma two_order_lines:
  "getlines [] two_order_file =
     [backslash # ''data'' @ [backslash], ''ngram 1=3'', ''ngram 2=2'', [],
      backslash # ''1-grams:'',
      ''-1.0'' @ tab # ''a'' @ tab # ''-0.3'',
      ''-2.0'' @ tab # ''b'' @ tab # ''-0.1'',
      ''-3.0'' @ tab # ''<unk>'' @ tab # ''0.0'',
      [],
      backslash # ''2-grams:'',
      ''-0.5'' @ tab # ''a b'',
      ''-0.7'' @ tab # ''b a'',
      [],
      backslash # ''end'' @ [backslash]]"
  by (simp add: two_order_file_def newline_def backslash_def tab_def)

text \<open>The handler after the header of the two-order file.\<close>

lemma two_order_header:
  "count (count (new_handler ''lm'' tr) 3) 2 =
     \<lparr>h_prefix = ''lm'', h_order = 0, h_observed = 0, h_counts = [3, 2],
      unigram_builder = Some \<lparr>prefix = ''lm/0/'', num_keys = 3, entries = []\<rparr>,
      unigrams = None, middle_builder = None, last_builder = None,
      trace = tr @ [Fs_make_directory ''lm/0/'', Builder_new Unigram ''lm/0/'' 3]\<rparr>"
  by (simp add: handler_defs Let_def)

text \<open>
  \<^bold>\<open>C1\<close> (as the code has it). With two orders declared (three unigrams, two bigrams),
  order 1 is the last declared order. Finishing order 0 opens the unigram map and then
  creates the builder of order 1 for \<^verbatim>\<open>counts_[1]\<close> keys, but it is a middle builder:
  the handler holds no last builder afterwards.
\<close>

theorem finish_order_0_makes_middle_builder:
  "failure (finish_order (count (count (new_handler ''lm'' []) 3) 2)) = None
   \<and> last_index (final (finish_order (count (count (new_handler ''lm'' []) 3) 2))) = 1
   \<and> unigrams (final (finish_order (count (count (new_handler ''lm'' []) 3) 2)))
       = Some \<lparr>map_prefix = ''lm/0'', map_entries = []\<rparr>
   \<and> middle_builder (final (finish_order (count (count (new_handler ''lm'' []) 3) 2)))
       = Some \<lparr>prefix = ''lm/1'', num_keys = 2, entries = []\<rparr>
   \<and> last_builder (final (finish_order (count (count (new_handler ''lm'' []) 3) 2))) = None"
  by (simp add: two_order_header failure_def final_def handler_defs Let_def to_string.simps)

text \<open>The build of the two-order file, run to its end.\<close>

lemma two_order_build:
  "build_from_arpa stoul_digits stof_table index_by_position two_order_file ''lm'' =
     Inl (Null_pointer,
          \<lparr>h_prefix = ''lm'', h_order = 1, h_observed = 1, h_counts = [3, 2],
           unigram_builder = None,
           unigrams = Some \<lparr>map_prefix = ''lm/0'',
                            map_entries =
                              [(''a'', \<lparr>prob = 0xBF800000, backoff = 0xBE99999A\<rparr>),
                               (''b'', \<lparr>prob = 0xC0000000, backoff = 0xBDCCCCCD\<rparr>),
                               (''<unk>'', \<lparr>prob = 0xC0400000, backoff = 0\<rparr>)]\<rparr>,
           middle_builder = Some \<lparr>prefix = ''lm/1'', num_keys = 2, entries = []\<rparr>,
           last_builder = None,
           trace =
             [Fs_remove_all ''lm'', Fs_make_directory ''lm'',
              Fs_make_directory ''lm/0/'', Builder_new Unigram ''lm/0/'' 3,
              Insert_unigram ''a'' \<lparr>prob = 0xBF800000, backoff = 0xBE99999A\<rparr>,
              Insert_unigram ''b'' \<lparr>prob = 0xC0000000, backoff = 0xBDCCCCCD\<rparr>,
              Insert_unigram ''<unk>'' \<lparr>prob = 0xC0400000, backoff = 0\<rparr>,
              Builder_write Unigram ''lm/0/'', Builder_delete Unigram ''lm/0/'',
              Map_open ''lm/0'',
              Fs_make_directory ''lm/1'', Builder_new Middle ''lm/1'' 2]\<rparr>)"
  by (simp add: two_order_lines reader_defs string_defs handler_defs example_defs Let_def
      to_string.simps)

text \<open>
  \<^bold>\<open>C2\<close> (as the code has it). The build of the two-order file of the end-to-end
  scenario does not complete: the three unigrams are inserted and written, a middle
  builder is created for order 1, and the first bigram, being of the last declared
  order, is sent to the last builder, which was never created.
\<close>

theorem two_order_build_fails:
  "failure (build_from_arpa stoul_digits stof_table index_by_position two_order_file ''lm'')
     = Some Null_pointer
   \<and> (case build_from_arpa stoul_digits stof_table index_by_position two_order_file ''lm'' of
         Inl (e, st) \<Rightarrow>
           h_order st = 1 \<and> last_index st = 1
           \<and> middle_builder st = Some \<lparr>prefix = ''lm/1'', num_keys = 2, entries = []\<rparr>
           \<and> last_builder st = None
           \<and> trace st =
               [Fs_remove_all ''lm'', Fs_make_directory ''lm'',
                Fs_make_directory ''lm/0/'', Builder_new Unigram ''lm/0/'' 3,
                Insert_unigram ''a'' \<lparr>prob = 0xBF800000, backoff = 0xBE99999A\<rparr>,
                Insert_unigram ''b'' \<lparr>prob = 0xC0000000, backoff = 0xBDCCCCCD\<rparr>,
                Insert_unigram ''<unk>'' \<lparr>prob = 0xC0400000, backoff = 0\<rparr>,
                Builder_write Unigram ''lm/0/'', Builder_delete Unigram ''lm/0/'',
                Map_open ''lm/0'',
                Fs_make_directory ''lm/1'', Builder_new Middle ''lm/1'' 2]
       | Inr (n, st) \<Rightarrow> False)"
  by (simp add: two_order_build failure_def last_index_def)

subsection \<open>Positions and pieces of a line\<close>

lemma unat_of_nat_64: "n < 2 ^ 64 \<Longrightarrow> unat (of_nat n :: uint64) = n"
  by (simp add: unat_of_nat)

lemma unat_npos: "unat npos = 2 ^ 64 - 1"
  by (simp add: npos_def unat_minus_1_64)

lemma unat_rest:
  assumes "n + 1 + m < 2 ^ 64"
  shows "m \<le> unat (npos - of_nat n - 1 :: uint64)"
proof -
  have n: "unat (of_nat n :: uint64) = n"
    using assms by (simp add: unat_of_nat_64)
  have le: "(of_nat n :: uint64) \<le> npos"
    using assms by (simp add: word_le_nat_alt n unat_npos)
  have a: "unat (npos - of_nat n :: uint64) = 2 ^ 64 - 1 - n"
    using unat_sub [OF le] by (simp add: n unat_npos)
  have b: "(1 :: uint64) \<le> npos - of_nat n"
    using assms by (simp add: word_le_nat_alt a)
  have "unat (npos - of_nat n - 1 :: uint64) = 2 ^ 64 - 1 - n - 1"
    using unat_sub [OF b] by (simp add: a)
  with assms show ?thesis by simp
qed

lemma takeWhile_upto: "c \<notin> set p \<Longrightarrow> takeWhile (\<lambda>x. x \<noteq> c) (p @ c # r) = p"
  by (induction p) auto

lemma takeWhile_whole: "c \<notin> set p \<Longrightarrow> takeWhile (\<lambda>x. x \<noteq> c) p = p"
  by (induction p) auto

lemma find_first_of_0:
  assumes "c \<notin> set p" "length (p @ c # r) < 2 ^ 64"
  shows "find_first_of (p @ c # r) c 0 = of_nat (length p)"
  using assms by (simp add: find_first_of_def takeWhile_upto)

lemma unat_succ_len: "n + 1 < 2 ^ 64 \<Longrightarrow> unat (of_nat n + 1 :: uint64) = Suc n"
  using unat_of_nat_64 [of "Suc n"] by (simp add: add.commute)


lemma find_first_of_none:
  assumes "c \<notin> set g" "length (p @ c # g) < 2 ^ 64"
  shows "find_first_of (p @ c # g) c (of_nat (length p) + 1) = npos"
  using assms by (simp add: find_first_of_def unat_succ_len)

lemma substr_head:
  "length (p @ r) < 2 ^ 64 \<Longrightarrow> substr (p @ r) 0 (of_nat (length p)) = Some p"
  by (simp add: substr_def unat_of_nat_64)


lemma substr_tail:
  "length (p @ c # r) < 2 ^ 64 \<Longrightarrow> m \<le> unat n \<Longrightarrow> length r \<le> m \<Longrightarrow>
   substr (p @ c # r) (of_nat (length p) + 1) n = Some r"
  by (simp add: substr_def unat_succ_len)



lemma parse_line_one_tab:
  assumes "tab \<notin> set p" "tab \<notin> set g" "length (p @ tab # g) < 2 ^ 64"
  shows "parse_line stof (p @ tab # g) =
           (case stof p of None \<Rightarrow> Inl Stof_error | Some x \<Rightarrow> Inr (g, x, 0))"
proof -
  let ?s = "p @ tab # g"
  define w1 :: uint64 where "w1 = of_nat (length p)"
  have f1: "find_first_of ?s tab 0 = w1"
    unfolding w1_def using assms by (intro find_first_of_0) auto
  have f2: "find_first_of ?s tab (w1 + 1) = npos"
    unfolding w1_def using assms by (intro find_first_of_none) auto
  have s1: "substr ?s 0 w1 = Some p"
    unfolding w1_def using assms substr_head [of p "tab # g"] by simp
  have r: "length g \<le> unat (npos - w1 - 1)"
    unfolding w1_def using assms by (intro unat_rest) simp
  have s2: "substr ?s (w1 + 1) (npos - w1 - 1) = Some g"
    using assms r unfolding w1_def by (intro substr_tail [where m = "length g"]) auto
  show ?thesis
    by (simp add: parse_line_def f1 f2 s1 s2 Let_def split: option.splits)
qed

lemma data_line_not_skipped:
  assumes "p = [] \<or> hd p \<noteq> backslash"
  shows "\<not> skipped (p @ tab # r)" and "\<not> section_start (p @ tab # r)"
  using assms
  by (cases p; simp add: skipped_def section_start_def char_at_def tab_def backslash_def)+



subsection \<open>The three-order build, step by step\<close>

lemmas evaluation = handler_defs string_defs example_defs Let_def to_string.simps final_def

lemma three_order_header_eq:
  "three_order_header =
   \<lparr>h_prefix = ''lm'', h_order = 0, h_observed = 0, h_counts = [2, 1, 1],
      unigram_builder =
        Some \<lparr>prefix = ''lm/0/'', num_keys = 2, entries = []\<rparr>,
      unigrams = None, middle_builder = None, last_builder = None,
      trace =
        [Fs_make_directory ''lm/0/'', Builder_new Unigram ''lm/0/'' 2]\<rparr>"
  by (simp add: three_order_header_def evaluation)

lemma three_order_unigrams_eq:
  "three_order_unigrams =
   \<lparr>h_prefix = ''lm'', h_order = 0, h_observed = 2, h_counts = [2, 1, 1],
      unigram_builder =
        Some
         \<lparr>prefix = ''lm/0/'', num_keys = 2,
            entries =
              [(''a'', \<lparr>prob = 0xBF800000, backoff = 0xBE99999A\<rparr>),
               (''b'', \<lparr>prob = 0xC0000000, backoff = 0xBDCCCCCD\<rparr>)]\<rparr>,
      unigrams = None, middle_builder = None, last_builder = None,
      trace =
        [Fs_make_directory ''lm/0/'', Builder_new Unigram ''lm/0/'' 2,
         Insert_unigram ''a'' \<lparr>prob = 0xBF800000, backoff = 0xBE99999A\<rparr>,
         Insert_unigram ''b'' \<lparr>prob = 0xC0000000, backoff = 0xBDCCCCCD\<rparr>]\<rparr>"
  by (simp add: three_order_unigrams_def three_order_header_eq evaluation)

lemma three_order_advance_1:
  "advance three_order_unigrams 1 =
   Inr \<lparr>h_prefix = ''lm'', h_order = 1, h_observed = 0,
          h_counts = [2, 1, 1], unigram_builder = None,
          unigrams =
            Some
             \<lparr>map_prefix = ''lm/0'',
                map_entries =
                  [(''a'', \<lparr>prob = 0xBF800000, backoff = 0xBE99999A\<rparr>),
                   (''b'', \<lparr>prob = 0xC0000000, backoff = 0xBDCCCCCD\<rparr>)]\<rparr>,
          middle_builder =
            Some \<lparr>prefix = ''lm/1'', num_keys = 1, entries = []\<rparr>,
          last_builder = None,
          trace =
            [Fs_make_directory ''lm/0/'', Builder_new Unigram ''lm/0/'' 2,
             Insert_unigram ''a''
              \<lparr>prob = 0xBF800000, backoff = 0xBE99999A\<rparr>,
             Insert_unigram ''b''
              \<lparr>prob = 0xC0000000, backoff = 0xBDCCCCCD\<rparr>,
             Builder_write Unigram ''lm/0/'',
             Builder_delete Unigram ''lm/0/'', Map_open ''lm/0'',
             Fs_make_directory ''lm/1'', Builder_new Middle ''lm/1'' 1]\<rparr>"
  by (simp add: three_order_unigrams_eq evaluation)

lemma three_order_bigrams_eq:
  "three_order_bigrams =
   \<lparr>h_prefix = ''lm'', h_order = 1, h_observed = 1, h_counts = [2, 1, 1],
      unigram_builder = None,
      unigrams =
        Some
         \<lparr>map_prefix = ''lm/0'',
            map_entries =
              [(''a'', \<lparr>prob = 0xBF800000, backoff = 0xBE99999A\<rparr>),
               (''b'', \<lparr>prob = 0xC0000000, backoff = 0xBDCCCCCD\<rparr>)]\<rparr>,
      middle_builder =
        Some
         \<lparr>prefix = ''lm/1'', num_keys = 1,
            entries =
              [([0, 1], \<lparr>prob = 0xBF000000, backoff = 0xBDCCCCCD\<rparr>)]\<rparr>,
      last_builder = None,
      trace =
        [Fs_make_directory ''lm/0/'', Builder_new Unigram ''lm/0/'' 2,
         Insert_unigram ''a'' \<lparr>prob = 0xBF800000, backoff = 0xBE99999A\<rparr>,
         Insert_unigram ''b'' \<lparr>prob = 0xC0000000, backoff = 0xBDCCCCCD\<rparr>,
         Builder_write Unigram ''lm/0/'', Builder_delete Unigram ''lm/0/'',
         Map_open ''lm/0'', Fs_make_directory ''lm/1'',
         Builder_new Middle ''lm/1'' 1,
         Insert_middle [0, 1] \<lparr>prob = 0xBF000000, backoff = 0xBDCCCCCD\<rparr>]\<rparr>"
  by (simp add: three_order_bigrams_def three_order_unigrams_eq evaluation)

lemma three_order_advance_2:
  "advance three_order_bigrams 2 =
   Inr \<lparr>h_prefix = ''lm'', h_order = 2, h_observed = 0,
          h_counts = [2, 1, 1], unigram_builder = None,
          unigrams =
            Some
             \<lparr>map_prefix = ''lm/0'',
                map_entries =
                  [(''a'', \<lparr>prob = 0xBF800000, backoff = 0xBE99999A\<rparr>),
                   (''b'', \<lparr>prob = 0xC0000000, backoff = 0xBDCCCCCD\<rparr>)]\<rparr>,
          middle_builder = None,
          last_builder =
            Some \<lparr>prefix = ''lm/2'', num_keys = 1, entries = []\<rparr>,
          trace =
            [Fs_make_directory ''lm/0/'', Builder_new Unigram ''lm/0/'' 2,
             Insert_unigram ''a''
              \<lparr>prob = 0xBF800000, backoff = 0xBE99999A\<rparr>,
             Insert_unigram ''b''
              \<lparr>prob = 0xC0000000, backoff = 0xBDCCCCCD\<rparr>,
             Builder_write Unigram ''lm/0/'',
             Builder_delete Unigram ''lm/0/'', Map_open ''lm/0'',
             Fs_make_directory ''lm/1'', Builder_new Middle ''lm/1'' 1,
             Insert_middle [0, 1]
              \<lparr>prob = 0xBF000000, backoff = 0xBDCCCCCD\<rparr>,
             Builder_write Middle ''lm/1'', Builder_delete Middle ''lm/1'',
             Fs_make_directory ''lm/2'', Builder_new Last ''lm/2'' 1]\<rparr>"
  by (simp add: three_order_bigrams_eq evaluation)

lemma three_order_trigrams_eq:
  "three_order_trigrams =
   \<lparr>h_prefix = ''lm'', h_order = 2, h_observed = 1, h_counts = [2, 1, 1],
      unigram_builder = None,
      unigrams =
        Some
         \<lparr>map_prefix = ''lm/0'',
            map_entries =
              [(''a'', \<lparr>prob = 0xBF800000, backoff = 0xBE99999A\<rparr>),
               (''b'', \<lparr>prob = 0xC0000000, backoff = 0xBDCCCCCD\<rparr>)]\<rparr>,
      middle_builder = None,
      last_builder =
        Some
         \<lparr>prefix = ''lm/2'', num_keys = 1,
            entries = [([0, 1, 0], 0xBF333333)]\<rparr>,
      trace =
        [Fs_make_directory ''lm/0/'', Builder_new Unigram ''lm/0/'' 2,
         Insert_unigram ''a'' \<lparr>prob = 0xBF800000, backoff = 0xBE99999A\<rparr>,
         Insert_unigram ''b'' \<lparr>prob = 0xC0000000, backoff = 0xBDCCCCCD\<rparr>,
         Builder_write Unigram ''lm/0/'', Builder_delete Unigram ''lm/0/'',
         Map_open ''lm/0'', Fs_make_directory ''lm/1'',
         Builder_new Middle ''lm/1'' 1,
         Insert_middle [0, 1] \<lparr>prob = 0xBF000000, backoff = 0xBDCCCCCD\<rparr>,
         Builder_write Middle ''lm/1'', Builder_delete Middle ''lm/1'',
         Fs_make_directory ''lm/2'', Builder_new Last ''lm/2'' 1,
         Insert_last [0, 1, 0] 0xBF333333]\<rparr>"
  by (simp add: three_order_trigrams_def three_order_bigrams_eq evaluation)

lemma three_order_finish:
  "finish_order three_order_trigrams =
   Inr \<lparr>h_prefix = ''lm'', h_order = 2, h_observed = 0,
          h_counts = [2, 1, 1], unigram_builder = None,
          unigrams =
            Some
             \<lparr>map_prefix = ''lm/0'',
                map_entries =
                  [(''a'', \<lparr>prob = 0xBF800000, backoff = 0xBE99999A\<rparr>),
                   (''b'', \<lparr>prob = 0xC0000000, backoff = 0xBDCCCCCD\<rparr>)]\<rparr>,
          middle_builder = None, last_builder = None,
          trace =
            [Fs_make_directory ''lm/0/'', Builder_new Unigram ''lm/0/'' 2,
             Insert_unigram ''a''
              \<lparr>prob = 0xBF800000, backoff = 0xBE99999A\<rparr>,
             Insert_unigram ''b''
              \<lparr>prob = 0xC0000000, backoff = 0xBDCCCCCD\<rparr>,
             Builder_write Unigram ''lm/0/'',
             Builder_delete Unigram ''lm/0/'', Map_open ''lm/0'',
             Fs_make_directory ''lm/1'', Builder_new Middle ''lm/1'' 1,
             Insert_middle [0, 1]
              \<lparr>prob = 0xBF000000, backoff = 0xBDCCCCCD\<rparr>,
             Builder_write Middle ''lm/1'', Builder_delete Middle ''lm/1'',
             Fs_make_directory ''lm/2'', Builder_new Last ''lm/2'' 1,
             Insert_last [0, 1, 0] 0xBF333333, Builder_write Last ''lm/2'',
             Builder_delete Last ''lm/2'']\<rparr>"
  by (simp add: three_order_trigrams_eq evaluation)

lemma ok_final: "failure r = None \<Longrightarrow> r = Inr (final r)"
  by (auto simp: failure_def final_def split: sum.splits)

subsection \<open>One call of the handler\<close>

lemma counts_at_observed: "counts_at (st\<lparr>h_observed := x\<rparr>) i = counts_at st i"
  by (simp add: counts_at_def)

lemma last_index_observed: "last_index (st\<lparr>h_observed := x\<rparr>) = last_index st"
  by (simp add: last_index_def)

lemma advance_order: "advance st ord = Inr st1 \<Longrightarrow> h_order st \<le> ord \<Longrightarrow> h_order st1 = ord"
  by (auto simp: advance_def split: if_splits sum.splits)

lemma forward_observed:
  "forward index st ord ngram p b = Inr st' \<Longrightarrow> h_observed st' = h_observed st"
  by (auto simp: forward_def emit_def split: if_splits option.splits sum.splits)

text \<open>
  \<^bold>\<open>C3\<close>. Let \<open>st1\<close> be the handler once the tuple's order has been made the current
  one (the order of the tuple is the current order whenever tuples come in
  non-decreasing order, as the reader emits them). Handling the tuple adds one to the
  observed count of \<open>st1\<close>. If the new count exceeds the count declared for that order,
  the call fails with the runtime error \<^verbatim>\<open>too many N-grams\<close>, \<open>N\<close> being the order
  counted from one, and leaves the trace of \<open>st1\<close> as it was: nothing went to a
  builder. If the call succeeds, the new count is at most the declared count.
\<close>

theorem too_many_grams:
  assumes "advance st ord = Inr st1"
  shows "(h_order st \<le> ord \<longrightarrow> h_order st1 = ord)
       \<and> (\<forall>n. counts_at st1 ord = Some n \<and> n < h_observed st1 + 1 \<longrightarrow>
             handle index st ord ngram p b =
               Inl (Runtime_error (''too many '' @ to_string (unat (ord + 1)) @ ''-grams''),
                    st1\<lparr>h_observed := h_observed st1 + 1\<rparr>))
       \<and> (\<forall>st'. handle index st ord ngram p b = Inr st' \<longrightarrow>
             h_observed st' = h_observed st1 + 1
             \<and> (\<exists>n. counts_at st1 ord = Some n \<and> h_observed st' \<le> n))"
proof (intro conjI allI impI)
  assume "h_order st \<le> ord"
  with assms show "h_order st1 = ord" by (rule advance_order)
next
  fix n assume "counts_at st1 ord = Some n \<and> n < h_observed st1 + 1"
  with assms show "handle index st ord ngram p b =
      Inl (Runtime_error (''too many '' @ to_string (unat (ord + 1)) @ ''-grams''),
           st1\<lparr>h_observed := h_observed st1 + 1\<rparr>)"
    by (simp add: handle_def Let_def counts_at_observed)
next
  fix st' assume ok: "handle index st ord ngram p b = Inr st'"
  from ok assms obtain n where n: "counts_at st1 ord = Some n" "\<not> n < h_observed st1 + 1"
    and f: "forward index (st1\<lparr>h_observed := h_observed st1 + 1\<rparr>) ord ngram p b = Inr st'"
    by (auto simp: handle_def Let_def counts_at_observed split: option.splits if_splits)
  from forward_observed [OF f] show "h_observed st' = h_observed st1 + 1" by simp
  with n show "\<exists>n. counts_at st1 ord = Some n \<and> h_observed st' \<le> n" by auto
qed

theorem too_many_grams_witness:
  "advance three_order_unigrams 0 = Inr three_order_unigrams
   \<and> h_order three_order_unigrams \<le> 0
   \<and> counts_at three_order_unigrams 0 = Some 2
   \<and> 2 < h_observed three_order_unigrams + 1
   \<and> handle index_by_position three_order_unigrams 0 ''c'' 0xC0400000 0 =
       Inl (Runtime_error ''too many 1-grams'', three_order_unigrams\<lparr>h_observed := 3\<rparr>)
   \<and> failure (advance three_order_unigrams 1) = None
   \<and> h_order (final (advance three_order_unigrams 1)) = 1
   \<and> handle index_by_position three_order_unigrams 1 ''a b'' 0xBF000000 0xBDCCCCCD =
       Inr three_order_bigrams
   \<and> h_observed three_order_bigrams = h_observed (final (advance three_order_unigrams 1)) + 1
   \<and> counts_at (final (advance three_order_unigrams 1)) 1 = Some 1
   \<and> h_observed three_order_bigrams \<le> 1"
proof -
  have a0: "advance three_order_unigrams 0 = Inr three_order_unigrams"
    by (simp add: advance_def three_order_unigrams_eq)
  have a1: "advance three_order_unigrams 1 = Inr (final (advance three_order_unigrams 1))"
    by (simp add: three_order_advance_1 final_def)
  have h1: "handle index_by_position three_order_unigrams 1 ''a b'' 0xBF000000 0xBDCCCCCD =
      Inr three_order_bigrams"
    unfolding three_order_bigrams_eq by (simp add: three_order_unigrams_eq evaluation)
  show ?thesis
    using too_many_grams [OF a0, of index_by_position "''c''" "0xC0400000" 0]
      too_many_grams [OF a1, of index_by_position "''a b''" "0xBF000000" "0xBDCCCCCD"]
      a0 h1
    by (simp add: three_order_advance_1 failure_def final_def)
      (simp add: three_order_unigrams_eq three_order_bigrams_eq counts_at_def to_string.simps)
qed

subsection \<open>Tokens and the vocabulary\<close>

lemma for_each_token_pieces:
  "set acc \<inter> set delims = {} \<Longrightarrow> t \<in> set (for_each_token delims acc s) \<Longrightarrow>
   set t \<inter> set delims = {}"
proof (induction s arbitrary: acc)
  case Nil
  then show ?case by auto
next
  case (Cons c s)
  show ?case
  proof (cases "c \<in> set delims")
    case True
    with Cons.prems have "t = rev acc \<or> t \<in> set (for_each_token delims [] s)" by simp
    with Cons.prems(1) Cons.IH [of "[]"] show ?thesis by auto
  next
    case False
    with Cons.prems have "t \<in> set (for_each_token delims (c # acc) s)" by simp
    moreover from False Cons.prems(1) have "set (c # acc) \<inter> set delims = {}" by simp
    ultimately show ?thesis by (rule Cons.IH [rotated])
  qed
qed

lemma for_each_token_example:
  "for_each_token '' '' [] ''a  b c'' = [''a'', [], ''b'', ''c'']"
  by simp

lemma resolve_find:
  "resolve idx ts ids =
     (case find (\<lambda>u. u \<noteq> [] \<and> idx u = None) ts of
        Some u \<Rightarrow> Inl u
      | None \<Rightarrow> Inr (ids @ map (\<lambda>u. the (idx u)) (filter (\<lambda>u. u \<noteq> []) ts)))"
  by (induction ts arbitrary: ids) (auto split: option.splits)

text \<open>
  \<^bold>\<open>C4\<close>. For a gram of an order that is not 0 (with the order made current, the count
  within its declared bound, a builder and the vocabulary in place, as the handler's
  own assertions ask), the text is cut at its spaces and every piece that is not empty
  is looked up in the vocabulary. If a piece has no id, the call fails with the runtime
  error \<^verbatim>\<open>ngram contains unknown unigram u\<close>, \<open>u\<close> being the first such piece, and leaves
  the trace as it was: nothing went to the builder.
\<close>

theorem unknown_unigram:
  assumes "advance st ord = Inr st1"
    and "counts_at st1 ord = Some n" and "\<not> n < h_observed st1 + 1"
    and "h_order st1 \<noteq> 0"
    and "middle_builder st1 \<noteq> None \<or> last_builder st1 \<noteq> None"
    and "unigrams st1 = Some vocab"
    and "t \<in> set (for_each_token '' '' [] ngram)" and "t \<noteq> []" and "index vocab t = None"
  shows "\<exists>u. find (\<lambda>u. u \<noteq> [] \<and> index vocab u = None) (for_each_token '' '' [] ngram) = Some u
           \<and> handle index st ord ngram p b =
               Inl (Runtime_error (''ngram contains unknown unigram '' @ u),
                    st1\<lparr>h_observed := h_observed st1 + 1\<rparr>)"
proof -
  let ?P = "\<lambda>u. u \<noteq> [] \<and> index vocab u = None"
  from assms(7-9) obtain u where u: "find ?P (for_each_token '' '' [] ngram) = Some u"
    by (cases "find ?P (for_each_token '' '' [] ngram)") (auto simp: find_None_iff)
  with assms(1-6) have "handle index st ord ngram p b =
      Inl (Runtime_error (''ngram contains unknown unigram '' @ u),
           st1\<lparr>h_observed := h_observed st1 + 1\<rparr>)"
    by (auto simp: handle_def forward_def Let_def resolve_find counts_at_observed
        last_index_observed)
  with u show ?thesis by blast
qed

theorem unknown_unigram_witness:
  "failure (advance three_order_unigrams 1) = None
   \<and> counts_at (final (advance three_order_unigrams 1)) 1 = Some 1
   \<and> \<not> 1 < h_observed (final (advance three_order_unigrams 1)) + 1
   \<and> h_order (final (advance three_order_unigrams 1)) \<noteq> 0
   \<and> middle_builder (final (advance three_order_unigrams 1)) \<noteq> None
   \<and> unigrams (final (advance three_order_unigrams 1))
       = Some \<lparr>map_prefix = ''lm/0'',
                map_entries = [(''a'', \<lparr>prob = 0xBF800000, backoff = 0xBE99999A\<rparr>),
                               (''b'', \<lparr>prob = 0xC0000000, backoff = 0xBDCCCCCD\<rparr>)]\<rparr>
   \<and> for_each_token '' '' [] ''a c'' = [''a'', ''c'']
   \<and> index_by_position \<lparr>map_prefix = ''lm/0'',
                map_entries = [(''a'', \<lparr>prob = 0xBF800000, backoff = 0xBE99999A\<rparr>),
                               (''b'', \<lparr>prob = 0xC0000000, backoff = 0xBDCCCCCD\<rparr>)]\<rparr> ''c'' = None
   \<and> failure (handle index_by_position three_order_unigrams 1 ''a c'' 0xBF000000 0) =
       Some (Runtime_error ''ngram contains unknown unigram c'')
   \<and> trace (final (handle index_by_position three_order_unigrams 1 ''a c'' 0xBF000000 0)) =
       trace (final (advance three_order_unigrams 1))"
proof -
  let ?vocab = "\<lparr>map_prefix = ''lm/0'',
                map_entries = [(''a'', \<lparr>prob = 0xBF800000, backoff = 0xBE99999A\<rparr>),
                               (''b'', \<lparr>prob = 0xC0000000, backoff = 0xBDCCCCCD\<rparr>)]\<rparr>"
  have a1: "advance three_order_unigrams 1 = Inr (final (advance three_order_unigrams 1))"
    by (simp add: three_order_advance_1 final_def)
  have c: "counts_at (final (advance three_order_unigrams 1)) 1 = Some 1"
    "\<not> 1 < h_observed (final (advance three_order_unigrams 1)) + 1"
    "h_order (final (advance three_order_unigrams 1)) \<noteq> 0"
    "middle_builder (final (advance three_order_unigrams 1)) \<noteq> None
     \<or> last_builder (final (advance three_order_unigrams 1)) \<noteq> None"
    "unigrams (final (advance three_order_unigrams 1)) = Some ?vocab"
    by (simp_all add: three_order_advance_1 final_def counts_at_def)
  have t: "''c'' \<in> set (for_each_token '' '' [] ''a c'')" "''c'' \<noteq> []"
    "index_by_position ?vocab ''c'' = None"
    by (simp_all add: index_by_position_def)
  from unknown_unigram [where index = index_by_position and st = three_order_unigrams
      and ord = 1 and ?st1.0 = "final (advance three_order_unigrams 1)" and n = 1
      and vocab = ?vocab and t = "''c''" and ngram = "''a c''" and p = "0xBF000000" and b = 0,
      OF a1 c t]
  obtain u where u: "find (\<lambda>u. u \<noteq> [] \<and> index_by_position ?vocab u = None)
        (for_each_token '' '' [] ''a c'') = Some u"
    and h: "handle index_by_position three_order_unigrams 1 ''a c'' 0xBF000000 0 =
      Inl (Runtime_error (''ngram contains unknown unigram '' @ u),
           (final (advance three_order_unigrams 1))
             \<lparr>h_observed := h_observed (final (advance three_order_unigrams 1)) + 1\<rparr>)"
    by blast
  from u have "u = ''c''"
    by (simp add: index_by_position_def)
  with h c t show ?thesis
    by (simp add: failure_def final_def three_order_advance_1)
qed

subsection \<open>What goes to the builder\<close>

text \<open>
  \<^bold>\<open>C5\<close> (as stated, refuted). One order declared, so that order 0 is the maximum
  declared order: the unigram \<open>a\<close> goes to the unigram builder with the pair of its
  probability and its backoff, not with the probability alone.
\<close>

theorem unigram_of_last_order_keeps_backoff:
  "last_index (count (new_handler ''lm'' []) 1) = 0
   \<and> h_order (final (handle index_by_position (count (new_handler ''lm'' []) 1) 0 ''a''
                        0xBF800000 0xBE99999A)) = 0
   \<and> failure (handle index_by_position (count (new_handler ''lm'' []) 1) 0 ''a''
                 0xBF800000 0xBE99999A) = None
   \<and> trace (final (handle index_by_position (count (new_handler ''lm'' []) 1) 0 ''a''
                      0xBF800000 0xBE99999A)) =
       [Fs_make_directory ''lm/0/'', Builder_new Unigram ''lm/0/'' 1,
        Insert_unigram ''a'' \<lparr>prob = 0xBF800000, backoff = 0xBE99999A\<rparr>]"
  by (simp add: evaluation failure_def)

text \<open>
  \<^bold>\<open>C5\<close> (amended). Let \<open>st1\<close> be the handler once the tuple's order has been made the
  current one, and let the call succeed. A gram of order 0 goes to the unigram builder
  with the pair of its probability and its backoff, also when order 0 is the maximum
  declared order. A gram of an order that is neither 0 nor the maximum declared order
  goes to the middle builder with the pair. A gram of the maximum declared order, when
  that is not order 0, goes to the last builder with its probability alone.
\<close>

theorem forwarded_value:
  assumes "advance st ord = Inr st1" and "handle index st ord ngram p b = Inr st'"
  shows "(h_order st1 = 0 \<longrightarrow>
            trace st' = trace st1 @ [Insert_unigram ngram \<lparr>prob = p, backoff = b\<rparr>])
       \<and> (h_order st1 \<noteq> 0 \<and> h_order st1 \<noteq> last_index st1 \<longrightarrow>
            (\<exists>ids. trace st' = trace st1 @ [Insert_middle ids \<lparr>prob = p, backoff = b\<rparr>]))
       \<and> (h_order st1 \<noteq> 0 \<and> h_order st1 = last_index st1 \<longrightarrow>
            (\<exists>ids. trace st' = trace st1 @ [Insert_last ids p]))"
  using assms
  by (auto simp: handle_def forward_def emit_def Let_def counts_at_observed last_index_observed
      split: option.splits if_splits sum.splits)

theorem forwarded_value_witness:
  "advance three_order_unigrams 1 = Inr (final (advance three_order_unigrams 1))
   \<and> handle index_by_position three_order_unigrams 1 ''a b'' 0xBF000000 0xBDCCCCCD =
       Inr three_order_bigrams
   \<and> h_order (final (advance three_order_unigrams 1)) \<noteq> 0
   \<and> h_order (final (advance three_order_unigrams 1))
       \<noteq> last_index (final (advance three_order_unigrams 1))
   \<and> trace three_order_bigrams = trace (final (advance three_order_unigrams 1))
       @ [Insert_middle [0, 1] \<lparr>prob = 0xBF000000, backoff = 0xBDCCCCCD\<rparr>]
   \<and> advance three_order_bigrams 2 = Inr (final (advance three_order_bigrams 2))
   \<and> handle index_by_position three_order_bigrams 2 ''a b a'' 0xBF333333 0 =
       Inr three_order_trigrams
   \<and> h_order (final (advance three_order_bigrams 2)) \<noteq> 0
   \<and> h_order (final (advance three_order_bigrams 2))
       = last_index (final (advance three_order_bigrams 2))
   \<and> trace three_order_trigrams = trace (final (advance three_order_bigrams 2))
       @ [Insert_last [0, 1, 0] 0xBF333333]
   \<and> advance three_order_header 0 = Inr three_order_header
   \<and> h_order three_order_header = 0
   \<and> trace (final (handle index_by_position three_order_header 0 ''a'' 0xBF800000 0xBE99999A))
       = trace three_order_header
         @ [Insert_unigram ''a'' \<lparr>prob = 0xBF800000, backoff = 0xBE99999A\<rparr>]"
proof -
  have a0: "advance three_order_header 0 = Inr three_order_header"
    by (simp add: advance_def three_order_header_eq)
  have h0: "handle index_by_position three_order_header 0 ''a'' 0xBF800000 0xBE99999A =
      Inr (final (handle index_by_position three_order_header 0 ''a'' 0xBF800000 0xBE99999A))"
    by (simp add: three_order_header_eq evaluation)
  have a1: "advance three_order_unigrams 1 = Inr (final (advance three_order_unigrams 1))"
    by (simp add: three_order_advance_1 final_def)
  have h1: "handle index_by_position three_order_unigrams 1 ''a b'' 0xBF000000 0xBDCCCCCD =
      Inr three_order_bigrams"
    unfolding three_order_bigrams_eq by (simp add: three_order_unigrams_eq evaluation)
  have a2: "advance three_order_bigrams 2 = Inr (final (advance three_order_bigrams 2))"
    by (simp add: three_order_advance_2 final_def)
  have h2: "handle index_by_position three_order_bigrams 2 ''a b a'' 0xBF333333 0 =
      Inr three_order_trigrams"
    unfolding three_order_trigrams_eq by (simp add: three_order_bigrams_eq evaluation)
  have o: "h_order three_order_header = 0"
    "h_order (final (advance three_order_unigrams 1)) \<noteq> 0"
    "h_order (final (advance three_order_unigrams 1))
       \<noteq> last_index (final (advance three_order_unigrams 1))"
    "h_order (final (advance three_order_bigrams 2)) \<noteq> 0"
    "h_order (final (advance three_order_bigrams 2))
       = last_index (final (advance three_order_bigrams 2))"
    by (simp_all add: three_order_header_eq three_order_advance_1 three_order_advance_2
        final_def last_index_def)
  show ?thesis
    using forwarded_value [OF a0 h0] forwarded_value [OF a1 h1] forwarded_value [OF a2 h2]
      a0 a1 a2 h1 h2 o
    by (simp add: three_order_bigrams_eq three_order_trigrams_eq three_order_advance_1
        three_order_advance_2 final_def)
qed

subsection \<open>A build with one declared order\<close>

lemma finish_order_unigram_only:
  assumes "h_order st = 0" and "unigram_builder st = Some ub" and "length (h_counts st) = 1"
  shows "failure (finish_order st) = Some Index_out_of_range"
  using assms by (simp add: finish_order_def failure_def counts_at_def emit_def Let_def)

lemma finish_order_two_orders:
  assumes "h_order st = 0" and "unigram_builder st = Some ub" and "2 \<le> length (h_counts st)"
  shows "\<exists>st'. finish_order st = Inr st'
           \<and> middle_builder st' = Some (make_builder (h_prefix st @ ''/1'') (h_counts st ! 1))"
  using assms
  by (simp add: finish_order_def counts_at_def emit_def next_prefix_def Let_def to_string.simps)

lemma handle_unigram_only:
  assumes "unigram_only h" and "handle index h ord g p b = Inr h'"
  shows "unigram_only h'"
proof (cases "h_order h < ord")
  case True
  from assms(1) obtain ub where "unigram_builder h = Some ub"
    by (auto simp: unigram_only_def)
  with assms(1) have "failure (finish_order h) = Some Index_out_of_range"
    by (intro finish_order_unigram_only) (auto simp: unigram_only_def)
  with True assms(2) show ?thesis
    by (auto simp: handle_def advance_def failure_def split: sum.splits)
next
  case False
  with assms show ?thesis
    by (auto simp: handle_def advance_def forward_def unigram_only_def emit_def Let_def
        split: option.splits if_splits)
qed

lemma read_data_unigram_only:
  "unigram_only h \<Longrightarrow> read_data stof (handle index) ord h ls = Inr h' \<Longrightarrow> unigram_only h'"
proof (induction ls arbitrary: ord h)
  case Nil
  then show ?case by simp
next
  case (Cons l ls)
  then show ?case
    by (auto split: if_splits sum.splits prod.splits dest: handle_unigram_only)
qed

lemma count_header_ok: "header_ok h \<Longrightarrow> header_ok (count h n)"
  by (auto simp: header_ok_def count_def emit_def Let_def)

lemma count_line_ok:
  "header_ok h \<Longrightarrow> count_line stoul count h l = Inr h1 \<Longrightarrow> header_ok h1"
  by (auto simp: count_line_def Let_def count_header_ok split: option.splits)

lemma read_header_ok:
  "header_ok h \<Longrightarrow> read_header stoul count h ls = Inr (h', rest) \<Longrightarrow> header_ok h'"
proof (induction ls arbitrary: h)
  case Nil
  then show ?case by simp
next
  case (Cons l ls)
  show ?case
  proof (cases "starts_with l ''ngram ''")
    case True
    with Cons.prems obtain h1 where h1: "count_line stoul count h l = Inr h1"
      by (auto split: sum.splits)
    with Cons.prems have ok: "header_ok h1" by (auto dest: count_line_ok)
    from Cons.prems True h1 have "h' = h1 \<or> read_header stoul count h1 ls = Inr (h', rest)"
      by (auto split: if_splits)
    with ok Cons.IH show ?thesis by auto
  next
    case False
    with Cons.prems have "h' = h \<or> read_header stoul count h ls = Inr (h', rest)"
      by (auto split: if_splits)
    with Cons.prems(1) Cons.IH show ?thesis by auto
  qed
qed

lemma new_handler_ok: "header_ok (new_handler pfx tr)"
  by (simp add: header_ok_def new_handler_def)

lemma unigram_only_lines:
  "getlines [] unigram_only_file =
     [backslash # ''data'' @ [backslash], ''ngram 1=2'', [], backslash # ''1-grams:'',
      ''-1.0'' @ tab # ''a'', ''-2.0'' @ tab # ''b'', [], backslash # ''end'' @ [backslash]]"
  by (simp add: unigram_only_file_def newline_def backslash_def tab_def)

lemma unigram_only_header:
  "read_header stoul_digits count (new_handler ''lm'' tr) (getlines [] unigram_only_file) =
     Inr (count (new_handler ''lm'' tr) 2,
          [''-1.0'' @ tab # ''a'', ''-2.0'' @ tab # ''b'', [], backslash # ''end'' @ [backslash]])"
  by (simp add: unigram_only_lines count_line_def string_defs example_defs)

text \<open>
  \<^bold>\<open>C10\<close>. Finishing order 0 always goes on to create the builder of order 1 and reads
  \<^verbatim>\<open>counts_[1]\<close> for it. With two or more declared counts the read is in bounds and the
  builder is created with that many keys. With exactly one declared count the read is
  past the end of \<^verbatim>\<open>counts_\<close>. So for a file whose header declares exactly one order
  the build never succeeds, and whenever the reader gets through the file, the last
  \<^verbatim>\<open>finish_order\<close> of \<^verbatim>\<open>build_from_arpa\<close> is the call that reads out of bounds.
\<close>

theorem unigram_only_build_cannot_complete:
  "(h_order st = 0 \<and> unigram_builder st = Some ub \<and> 2 \<le> length (h_counts st) \<longrightarrow>
      (\<exists>st'. finish_order st = Inr st'
         \<and> middle_builder st' = Some (make_builder (h_prefix st @ ''/1'') (h_counts st ! 1))))
   \<and> (h_order st = 0 \<and> unigram_builder st = Some ub \<and> length (h_counts st) = 1 \<longrightarrow>
        failure (finish_order st) = Some Index_out_of_range)
   \<and> (read_header stoul count (new_handler pfx [Fs_remove_all pfx, Fs_make_directory pfx])
         (getlines [] file) = Inr (h0, rest) \<and> length (h_counts h0) = 1 \<longrightarrow>
        failure (build_from_arpa stoul stof index file pfx) \<noteq> None
        \<and> (\<forall>h. read_data stof (handle index) 0 h0 rest = Inr h \<longrightarrow>
              failure (finish_order h) = Some Index_out_of_range))"
proof (intro conjI impI allI)
  assume "h_order st = 0 \<and> unigram_builder st = Some ub \<and> 2 \<le> length (h_counts st)"
  then show "\<exists>st'. finish_order st = Inr st'
      \<and> middle_builder st' = Some (make_builder (h_prefix st @ ''/1'') (h_counts st ! 1))"
    by (intro finish_order_two_orders) auto
next
  assume "h_order st = 0 \<and> unigram_builder st = Some ub \<and> length (h_counts st) = 1"
  then show "failure (finish_order st) = Some Index_out_of_range"
    by (intro finish_order_unigram_only) auto
next
  assume a: "read_header stoul count (new_handler pfx [Fs_remove_all pfx, Fs_make_directory pfx])
         (getlines [] file) = Inr (h0, rest) \<and> length (h_counts h0) = 1"
  then have "header_ok h0"
    using read_header_ok [OF new_handler_ok] by blast
  with a have u: "unigram_only h0"
    by (auto simp: unigram_only_def header_ok_def)
  have last: "failure (finish_order h) = Some Index_out_of_range"
    if "read_data stof (handle index) 0 h0 rest = Inr h" for h
  proof -
    from read_data_unigram_only [OF u that] have "unigram_only h" .
    then show ?thesis
      by (auto simp: unigram_only_def intro: finish_order_unigram_only)
  qed
  fix h assume "read_data stof (handle index) 0 h0 rest = Inr h"
  then show "failure (finish_order h) = Some Index_out_of_range" by (rule last)
next
  assume a: "read_header stoul count (new_handler pfx [Fs_remove_all pfx, Fs_make_directory pfx])
         (getlines [] file) = Inr (h0, rest) \<and> length (h_counts h0) = 1"
  then have "header_ok h0"
    using read_header_ok [OF new_handler_ok] by blast
  with a have u: "unigram_only h0"
    by (auto simp: unigram_only_def header_ok_def)
  show "failure (build_from_arpa stoul stof index file pfx) \<noteq> None"
  proof (cases "read_data stof (handle index) 0 h0 rest")
    case (Inl x)
    with a show ?thesis
      by (cases x) (simp add: build_from_arpa_def read_from_arpa_def failure_def)
  next
    case (Inr h)
    from read_data_unigram_only [OF u Inr] have "unigram_only h" .
    then have "failure (finish_order h) = Some Index_out_of_range"
      by (auto simp: unigram_only_def intro: finish_order_unigram_only)
    with a Inr show ?thesis
      by (auto simp: build_from_arpa_def read_from_arpa_def failure_def split: sum.splits)
  qed
qed

theorem unigram_only_build_cannot_complete_witness:
  "h_order (count (count (new_handler ''lm'' []) 3) 2) = 0
   \<and> unigram_builder (count (count (new_handler ''lm'' []) 3) 2)
       = Some \<lparr>prefix = ''lm/0/'', num_keys = 3, entries = []\<rparr>
   \<and> 2 \<le> length (h_counts (count (count (new_handler ''lm'' []) 3) 2))
   \<and> failure (finish_order (count (count (new_handler ''lm'' []) 3) 2)) = None
   \<and> middle_builder (final (finish_order (count (count (new_handler ''lm'' []) 3) 2)))
       = Some (make_builder ''lm/1'' 2)
   \<and> h_order (count (new_handler ''lm'' []) 2) = 0
   \<and> unigram_builder (count (new_handler ''lm'' []) 2)
       = Some \<lparr>prefix = ''lm/0/'', num_keys = 2, entries = []\<rparr>
   \<and> length (h_counts (count (new_handler ''lm'' []) 2)) = 1
   \<and> failure (finish_order (count (new_handler ''lm'' []) 2)) = Some Index_out_of_range
   \<and> read_header stoul_digits count
         (new_handler ''lm'' [Fs_remove_all ''lm'', Fs_make_directory ''lm''])
         (getlines [] unigram_only_file) =
       Inr (count (new_handler ''lm'' [Fs_remove_all ''lm'', Fs_make_directory ''lm'']) 2,
            [''-1.0'' @ tab # ''a'', ''-2.0'' @ tab # ''b'', [], backslash # ''end'' @ [backslash]])
   \<and> length (h_counts (count (new_handler ''lm''
                  [Fs_remove_all ''lm'', Fs_make_directory ''lm'']) 2)) = 1
   \<and> failure (build_from_arpa stoul_digits stof_table index_by_position
                 unigram_only_file ''lm'') = Some Index_out_of_range"
proof -
  let ?two = "count (count (new_handler ''lm'' []) 3) 2"
  let ?one = "count (new_handler ''lm'' []) 2"
  let ?h0 = "count (new_handler ''lm'' [Fs_remove_all ''lm'', Fs_make_directory ''lm'']) 2"
  let ?rest = "[''-1.0'' @ tab # ''a'', ''-2.0'' @ tab # ''b'', [], backslash # ''end'' @ [backslash]]"
  have two: "h_order ?two = 0"
    "unigram_builder ?two = Some \<lparr>prefix = ''lm/0/'', num_keys = 3, entries = []\<rparr>"
    "2 \<le> length (h_counts ?two)" "h_prefix ?two = ''lm''" "h_counts ?two ! 1 = 2"
    by (simp_all add: two_order_header)
  have one: "h_order ?one = 0"
    "unigram_builder ?one = Some \<lparr>prefix = ''lm/0/'', num_keys = 2, entries = []\<rparr>"
    "length (h_counts ?one) = 1"
    by (simp_all add: handler_defs Let_def)
  have hdr: "read_header stoul_digits count
        (new_handler ''lm'' [Fs_remove_all ''lm'', Fs_make_directory ''lm''])
        (getlines [] unigram_only_file) = Inr (?h0, ?rest)"
    by (rule unigram_only_header)
  have len: "length (h_counts ?h0) = 1"
    by (simp add: handler_defs Let_def)
  have build: "failure (build_from_arpa stoul_digits stof_table index_by_position
      unigram_only_file ''lm'') = Some Index_out_of_range"
    by (simp add: unigram_only_lines reader_defs string_defs handler_defs example_defs Let_def
        to_string.simps failure_def)
  from unigram_only_build_cannot_complete [where st = ?two
      and ub = "\<lparr>prefix = ''lm/0/'', num_keys = 3, entries = []\<rparr>", THEN conjunct1] two
  obtain st' where st': "finish_order ?two = Inr st'"
      "middle_builder st' = Some (make_builder ''lm/1'' 2)"
    by auto
  from unigram_only_build_cannot_complete [where st = ?one
      and ub = "\<lparr>prefix = ''lm/0/'', num_keys = 2, entries = []\<rparr>",
      THEN conjunct2, THEN conjunct1] one
  have f: "failure (finish_order ?one) = Some Index_out_of_range"
    by blast
  from st' have "failure (finish_order ?two) = None"
      "middle_builder (final (finish_order ?two)) = Some (make_builder ''lm/1'' 2)"
    by (simp_all add: failure_def final_def)
  with two one f hdr len build show ?thesis
    by simp
qed

subsection \<open>More grams than declared\<close>

lemma read_data_line:
  "data_line stof l (g, p, b) \<Longrightarrow>
   read_data stof hdl ord h (l # rest) =
     (case hdl h ord g p b of Inl x \<Rightarrow> Inl x | Inr h1 \<Rightarrow> read_data stof hdl ord h1 rest)"
  by (simp add: data_line_def)

lemma counts_at_updates:
  "counts_at (st\<lparr>unigram_builder := u\<rparr>) i = counts_at st i"
  "counts_at (st\<lparr>trace := t\<rparr>) i = counts_at st i"
  by (simp_all add: counts_at_def)

lemma handle_unigram:
  assumes "h_order h = 0" and "unigram_builder h = Some ub" and "counts_at h 0 = Some n"
    and "\<not> n < h_observed h + 1"
  shows "handle index h 0 g p b =
           Inr (h\<lparr>h_observed := h_observed h + 1,
                  unigram_builder := Some (builder_call ub g \<lparr>prob = p, backoff = b\<rparr>),
                  trace := trace h @ [Insert_unigram g \<lparr>prob = p, backoff = b\<rparr>]\<rparr>)"
  using assms
  by (simp add: handle_def advance_def forward_def emit_def Let_def counts_at_observed)

lemma handle_too_many:
  assumes "h_order h = 0" and "counts_at h 0 = Some n" and "n < h_observed h + 1"
  shows "handle index h 0 g p b =
           Inl (Runtime_error ''too many 1-grams'', h\<lparr>h_observed := h_observed h + 1\<rparr>)"
  using assms by (simp add: handle_def advance_def Let_def to_string.simps counts_at_observed)

lemma three_for_two_lines:
  "getlines [] three_for_two_file =
     [backslash # ''data'' @ [backslash], ''ngram 1=2'', [], backslash # ''1-grams:'',
      ''-1.0'' @ tab # ''a'', ''-2.0'' @ tab # ''b'', ''-3.0'' @ tab # ''<unk>'', [],
      backslash # ''end'' @ [backslash]]"
  by (simp add: three_for_two_file_def newline_def backslash_def tab_def)

lemma data_line_one_tab:
  assumes "tab \<notin> set p" and "tab \<notin> set g" and "p = [] \<or> hd p \<noteq> backslash"
    and "stof p = Some x" and "length (p @ tab # g) < 2 ^ 64"
  shows "data_line stof (p @ tab # g) (g, x, 0)"
  using assms data_line_not_skipped [of p g]
  by (simp add: data_line_def parse_line_one_tab)

text \<open>
  \<^bold>\<open>C7\<close>. The header declares two unigrams (\<^verbatim>\<open>ngram 1=2\<close>, whatever else it declares)
  and the file goes on with three data lines. Then the build fails with the runtime
  error \<^verbatim>\<open>too many 1-grams\<close>. It fails when the third data line is read, the line beyond
  the two declared, whatever follows it in the file: the observed count is 3 and the
  first two unigrams are all that went to the builder.
\<close>

theorem three_unigrams_for_two:
  assumes "read_header stoul count (new_handler pfx [Fs_remove_all pfx, Fs_make_directory pfx])
             (getlines [] file) = Inr (h0, l1 # l2 # l3 # rest)"
    and "h_counts h0 = 2 # cs"
    and "data_line stof l1 (g1, p1, b1)"
    and "data_line stof l2 (g2, p2, b2)"
    and "data_line stof l3 (g3, p3, b3)"
  shows "\<exists>st. build_from_arpa stoul stof index file pfx =
                 Inl (Runtime_error ''too many 1-grams'', st)
           \<and> h_observed st = 3
           \<and> trace st = trace h0 @ [Insert_unigram g1 \<lparr>prob = p1, backoff = b1\<rparr>,
                                    Insert_unigram g2 \<lparr>prob = p2, backoff = b2\<rparr>]"
proof -
  from assms(1) have ok: "header_ok h0"
    using read_header_ok [OF new_handler_ok] by blast
  with assms(2) obtain ub where h0: "h_order h0 = 0" "h_observed h0 = 0"
      "unigram_builder h0 = Some ub" "counts_at h0 0 = Some 2"
    by (auto simp: header_ok_def counts_at_def)
  define h1 where "h1 = h0\<lparr>h_observed := h_observed h0 + 1,
      unigram_builder := Some (builder_call ub g1 \<lparr>prob = p1, backoff = b1\<rparr>),
      trace := trace h0 @ [Insert_unigram g1 \<lparr>prob = p1, backoff = b1\<rparr>]\<rparr>"
  have s1: "handle index h0 0 g1 p1 b1 = Inr h1"
    unfolding h1_def using h0 by (intro handle_unigram) auto
  have h1: "h_order h1 = 0" "h_observed h1 = 1" "counts_at h1 0 = Some 2"
    "unigram_builder h1 = Some (builder_call ub g1 \<lparr>prob = p1, backoff = b1\<rparr>)"
    using h0 by (simp_all add: h1_def counts_at_updates counts_at_observed)
  define h2 where "h2 = h1\<lparr>h_observed := h_observed h1 + 1,
      unigram_builder := Some (builder_call (builder_call ub g1 \<lparr>prob = p1, backoff = b1\<rparr>)
                                 g2 \<lparr>prob = p2, backoff = b2\<rparr>),
      trace := trace h1 @ [Insert_unigram g2 \<lparr>prob = p2, backoff = b2\<rparr>]\<rparr>"
  have s2: "handle index h1 0 g2 p2 b2 = Inr h2"
    unfolding h2_def using h1 by (intro handle_unigram) auto
  have h2: "h_order h2 = 0" "h_observed h2 = 2" "counts_at h2 0 = Some 2"
    using h1 by (simp_all add: h2_def counts_at_updates counts_at_observed)
  have s3: "handle index h2 0 g3 p3 b3 =
      Inl (Runtime_error ''too many 1-grams'', h2\<lparr>h_observed := h_observed h2 + 1\<rparr>)"
    using h2 by (intro handle_too_many) auto
  have "read_data stof (handle index) 0 h0 (l1 # l2 # l3 # rest) =
      Inl (Runtime_error ''too many 1-grams'', h2\<lparr>h_observed := h_observed h2 + 1\<rparr>)"
    by (simp add: read_data_line [OF assms(3)] read_data_line [OF assms(4)]
        read_data_line [OF assms(5)] s1 s2 s3 del: read_data.simps)
  with assms(1) have "build_from_arpa stoul stof index file pfx =
      Inl (Runtime_error ''too many 1-grams'', h2\<lparr>h_observed := h_observed h2 + 1\<rparr>)"
    by (simp add: build_from_arpa_def read_from_arpa_def)
  moreover have "h_observed (h2\<lparr>h_observed := h_observed h2 + 1\<rparr>) = 3"
    using h2 by simp
  moreover have "trace (h2\<lparr>h_observed := h_observed h2 + 1\<rparr>) =
      trace h0 @ [Insert_unigram g1 \<lparr>prob = p1, backoff = b1\<rparr>,
                  Insert_unigram g2 \<lparr>prob = p2, backoff = b2\<rparr>]"
    by (simp add: h2_def h1_def)
  ultimately show ?thesis by blast
qed

theorem three_unigrams_for_two_witness:
  "read_header stoul_digits count
      (new_handler ''lm'' [Fs_remove_all ''lm'', Fs_make_directory ''lm''])
      (getlines [] three_for_two_file) =
     Inr (count (new_handler ''lm'' [Fs_remove_all ''lm'', Fs_make_directory ''lm'']) 2,
          [''-1.0'' @ tab # ''a'', ''-2.0'' @ tab # ''b'', ''-3.0'' @ tab # ''<unk>'', [],
           backslash # ''end'' @ [backslash]])
   \<and> h_counts (count (new_handler ''lm'' [Fs_remove_all ''lm'', Fs_make_directory ''lm'']) 2)
       = [2]
   \<and> data_line stof_table (''-1.0'' @ tab # ''a'') (''a'', 0xBF800000, 0)
   \<and> data_line stof_table (''-2.0'' @ tab # ''b'') (''b'', 0xC0000000, 0)
   \<and> data_line stof_table (''-3.0'' @ tab # ''<unk>'') (''<unk>'', 0xC0400000, 0)
   \<and> failure (build_from_arpa stoul_digits stof_table index_by_position
                 three_for_two_file ''lm'') = Some (Runtime_error ''too many 1-grams'')"
proof -
  let ?h0 = "count (new_handler ''lm'' [Fs_remove_all ''lm'', Fs_make_directory ''lm'']) 2"
  have hdr: "read_header stoul_digits count
      (new_handler ''lm'' [Fs_remove_all ''lm'', Fs_make_directory ''lm''])
      (getlines [] three_for_two_file) =
     Inr (?h0, [''-1.0'' @ tab # ''a'', ''-2.0'' @ tab # ''b'', ''-3.0'' @ tab # ''<unk>'', [],
                backslash # ''end'' @ [backslash]])"
    by (simp add: three_for_two_lines count_line_def string_defs example_defs)
  have cs: "h_counts ?h0 = [2]"
    by (simp add: handler_defs Let_def)
  have d: "data_line stof_table (''-1.0'' @ tab # ''a'') (''a'', 0xBF800000, 0)"
    "data_line stof_table (''-2.0'' @ tab # ''b'') (''b'', 0xC0000000, 0)"
    "data_line stof_table (''-3.0'' @ tab # ''<unk>'') (''<unk>'', 0xC0400000, 0)"
    by (rule data_line_one_tab; simp add: tab_def backslash_def stof_table_def)+
  from three_unigrams_for_two [OF hdr cs d, of index_by_position]
  have "failure (build_from_arpa stoul_digits stof_table index_by_position
      three_for_two_file ''lm'') = Some (Runtime_error ''too many 1-grams'')"
    by (auto simp: failure_def)
  with hdr cs d show ?thesis by simp
qed

subsection \<open>The whole build\<close>



















subsection \<open>One builder at a time\<close>

lemma scan_append:
  "scan cur (xs @ ys) = (case scan cur xs of None \<Rightarrow> None | Some c \<Rightarrow> scan c ys)"
proof (induction xs arbitrary: cur)
  case Nil
  then show ?case by simp
next
  case (Cons e xs)
  then show ?case by (cases e) simp_all
qed

lemma running_stopped: "running_inv st \<Longrightarrow> stopped_inv st"
  by (simp add: running_inv_def stopped_inv_def)

lemma running_cases:
  assumes "running_inv st"
  obtains
    (none) "unigram_builder st = None" "middle_builder st = None" "last_builder st = None"
  | (unigram) ub where "unigram_builder st = Some ub" "middle_builder st = None"
      "last_builder st = None"
  | (middle) mb where "unigram_builder st = None" "middle_builder st = Some mb"
      "last_builder st = None"
  | (last) lb where "unigram_builder st = None" "middle_builder st = None"
      "last_builder st = Some lb"
  using assms
  by (cases "unigram_builder st"; cases "middle_builder st"; cases "last_builder st")
    (auto simp: running_inv_def active_builders_def)

lemma new_handler_running: "running_inv (new_handler pfx [Fs_remove_all pfx, Fs_make_directory pfx])"
  by (simp add: running_inv_def new_handler_def active_builders_def current_builder_def)

lemma count_running:
  assumes "running_inv st"
  shows "running_inv (count st n)"
proof (cases "h_counts st = []")
  case True
  with assms have "current_builder st = None" "scan None (trace st) = Some None"
    by (auto simp: running_inv_def)
  moreover from this(1) have "unigram_builder st = None" "middle_builder st = None"
      "last_builder st = None"
    by (auto simp: current_builder_def split: option.splits)
  ultimately show ?thesis
    using True
    by (simp add: running_inv_def count_def emit_def dropped_def make_builder_def Let_def
        active_builders_def current_builder_def scan_append)
next
  case False
  with assms show ?thesis
    by (auto simp: running_inv_def count_def Let_def active_builders_def current_builder_def
        split: option.splits)
qed

lemma finish_order_inv:
  assumes "running_inv st"
  shows "case finish_order st of Inl (e, st') \<Rightarrow> stopped_inv st' | Inr st' \<Rightarrow> running_inv st'"
proof -
  from assms have sc: "scan None (trace st) = Some (current_builder st)"
    by (simp add: running_inv_def)
  from assms show ?thesis
  proof (cases rule: running_cases)
    case none
    with sc show ?thesis
      by (simp add: finish_order_def stopped_inv_def active_builders_def Let_def)
  next
    case (unigram ub)
    with sc show ?thesis
      by (auto simp: finish_order_def stopped_inv_def running_inv_def active_builders_def
          current_builder_def emit_def dropped_def make_builder_def counts_at_def Let_def
          scan_append split: option.splits)
  next
    case (middle mb)
    with sc show ?thesis
      by (auto simp: finish_order_def stopped_inv_def running_inv_def active_builders_def
          current_builder_def emit_def dropped_def make_builder_def counts_at_def Let_def
          scan_append split: option.splits)
  next
    case (last lb)
    with sc show ?thesis
      by (auto simp: finish_order_def stopped_inv_def running_inv_def active_builders_def
          current_builder_def emit_def dropped_def make_builder_def counts_at_def Let_def
          scan_append split: option.splits)
  qed
qed

lemma current_builder_frame:
  "current_builder (st\<lparr>h_order := x\<rparr>) = current_builder st"
  "current_builder (st\<lparr>h_observed := y\<rparr>) = current_builder st"
  "active_builders (st\<lparr>h_order := x\<rparr>) = active_builders st"
  "active_builders (st\<lparr>h_observed := y\<rparr>) = active_builders st"
  by (simp_all add: current_builder_def active_builders_def cong: option.case_cong)

lemma inv_order:
  "running_inv (st\<lparr>h_order := x\<rparr>) = running_inv st"
  "running_inv (st\<lparr>h_observed := y\<rparr>) = running_inv st"
  "stopped_inv (st\<lparr>h_observed := y\<rparr>) = stopped_inv st"
  by (simp_all add: running_inv_def stopped_inv_def current_builder_frame)

lemma advance_inv:
  assumes "running_inv st"
  shows "case advance st ord of Inl (e, st') \<Rightarrow> stopped_inv st' | Inr st' \<Rightarrow> running_inv st'"
  using assms finish_order_inv [OF assms]
  by (auto simp: advance_def inv_order split: sum.splits)

lemma forward_inv:
  assumes "running_inv st"
  shows "case forward index st ord g p b of
           Inl (e, st') \<Rightarrow> stopped_inv st' | Inr st' \<Rightarrow> running_inv st'"
proof -
  from assms have sc: "scan None (trace st) = Some (current_builder st)"
    and cs: "h_counts st = [] \<longrightarrow> current_builder st = None"
    by (simp_all add: running_inv_def)
  from assms show ?thesis
  proof (cases rule: running_cases)
    case none
    with sc show ?thesis
      by (auto simp: forward_def stopped_inv_def active_builders_def split: option.splits)
  next
    case (unigram ub)
    with sc cs show ?thesis
      by (auto simp: forward_def stopped_inv_def running_inv_def active_builders_def
          current_builder_def emit_def builder_call_def scan_append
          split: option.splits sum.splits)
  next
    case (middle mb)
    with sc cs show ?thesis
      by (auto simp: forward_def stopped_inv_def running_inv_def active_builders_def
          current_builder_def emit_def builder_call_def scan_append
          split: option.splits sum.splits)
  next
    case (last lb)
    with sc cs show ?thesis
      by (auto simp: forward_def stopped_inv_def running_inv_def active_builders_def
          current_builder_def emit_def builder_call_def scan_append
          split: option.splits sum.splits)
  qed
qed

lemma handle_inv:
  assumes "running_inv st"
  shows "case handle index st ord g p b of
           Inl (e, st') \<Rightarrow> stopped_inv st' | Inr st' \<Rightarrow> running_inv st'"
proof (cases "advance st ord")
  case (Inl x)
  with advance_inv [OF assms, of ord] show ?thesis
    by (auto simp: handle_def)
next
  case (Inr st1)
  with advance_inv [OF assms, of ord] have r: "running_inv st1" by simp
  then have r2: "running_inv (st1\<lparr>h_observed := h_observed st1 + 1\<rparr>)"
    by (simp add: inv_order)
  from forward_inv [OF r2, of index ord g p b] running_stopped [OF r2] Inr show ?thesis
    by (auto simp: handle_def Let_def counts_at_observed split: option.splits)
qed

lemma stage_inv:
  "stage index pfx running st \<Longrightarrow> (if running then running_inv st else stopped_inv st)"
proof (induction rule: stage.induct)
  case stage_new
  show ?case by (simp add: new_handler_running)
next
  case (stage_count st n)
  then show ?case by (simp add: count_running)
next
  case (stage_handle st ord ngram p b st')
  with handle_inv [of st index ord ngram p b] show ?case by simp
next
  case (stage_handle_failed st ord ngram p b e st')
  with handle_inv [of st index ord ngram p b] show ?case by simp
next
  case (stage_finish st st')
  with finish_order_inv [of st] show ?case by simp
next
  case (stage_finish_failed st e st')
  with finish_order_inv [of st] show ?case by simp
qed

lemma finish_order_0_trace:
  assumes "running_inv st" and "h_order st = 0" and "finish_order st = Inr st'"
  shows "\<exists>ub n. unigram_builder st = Some ub \<and> unigram_builder st' = None
           \<and> trace st' = trace st @
               [Builder_write Unigram (prefix ub), Builder_delete Unigram (prefix ub),
                Map_open (h_prefix st @ ''/0''),
                Fs_make_directory (h_prefix st @ ''/1''),
                Builder_new Middle (h_prefix st @ ''/1'') n]"
  using assms(1)
proof (cases rule: running_cases)
  case (unigram ub)
  with assms(2,3) show ?thesis
    by (auto simp: finish_order_def emit_def dropped_def next_prefix_def Let_def to_string.simps
        split: option.splits)
qed (use assms(2,3) in \<open>auto simp: finish_order_def Let_def\<close>)

text \<open>
  \<^bold>\<open>C6\<close>. Every handler a build goes through, and the handler a failed call leaves
  behind, holds at most one builder (unigram, middle or last). In its trace a builder
  is created only when every builder created before has been written, and only the
  builder that is open is written. When a running handler finishes order 0, the trace
  grows by exactly: the unigram builder is written, the unigram builder is let go, the
  unigram map is opened, the directory of order 1 is made, the builder of order 1 is
  created; so the unigram builder is released before the next builder exists.
\<close>

theorem one_builder_at_a_time:
  assumes "stage index pfx running st"
  shows "active_builders st \<le> 1
       \<and> one_at_a_time (trace st)
       \<and> (\<forall>st'. running \<and> h_order st = 0 \<and> finish_order st = Inr st' \<longrightarrow>
             (\<exists>ub n. unigram_builder st = Some ub \<and> unigram_builder st' = None
                \<and> trace st' = trace st @
                    [Builder_write Unigram (prefix ub), Builder_delete Unigram (prefix ub),
                     Map_open (h_prefix st @ ''/0''),
                     Fs_make_directory (h_prefix st @ ''/1''),
                     Builder_new Middle (h_prefix st @ ''/1'') n]))"
proof -
  from stage_inv [OF assms] have s: "stopped_inv st"
    by (auto simp: running_stopped split: if_splits)
  then have "active_builders st \<le> 1" "one_at_a_time (trace st)"
    by (simp_all add: stopped_inv_def one_at_a_time_def)
  moreover have "\<exists>ub n. unigram_builder st = Some ub \<and> unigram_builder st' = None
      \<and> trace st' = trace st @
          [Builder_write Unigram (prefix ub), Builder_delete Unigram (prefix ub),
           Map_open (h_prefix st @ ''/0''),
           Fs_make_directory (h_prefix st @ ''/1''),
           Builder_new Middle (h_prefix st @ ''/1'') n]"
    if "running \<and> h_order st = 0 \<and> finish_order st = Inr st'" for st'
    using that stage_inv [OF assms] by (intro finish_order_0_trace) auto
  ultimately show ?thesis by blast
qed

theorem one_builder_at_a_time_witness:
  "stage index_by_position ''lm'' True
     (count (count (new_handler ''lm'' [Fs_remove_all ''lm'', Fs_make_directory ''lm'']) 3) 2)
   \<and> active_builders
       (count (count (new_handler ''lm'' [Fs_remove_all ''lm'', Fs_make_directory ''lm'']) 3) 2)
       \<le> 1
   \<and> one_at_a_time (trace
       (count (count (new_handler ''lm'' [Fs_remove_all ''lm'', Fs_make_directory ''lm'']) 3) 2))
   \<and> h_order
       (count (count (new_handler ''lm'' [Fs_remove_all ''lm'', Fs_make_directory ''lm'']) 3) 2)
       = 0
   \<and> failure (finish_order
       (count (count (new_handler ''lm'' [Fs_remove_all ''lm'', Fs_make_directory ''lm'']) 3) 2))
       = None
   \<and> unigram_builder (final (finish_order
       (count (count (new_handler ''lm'' [Fs_remove_all ''lm'', Fs_make_directory ''lm'']) 3) 2)))
       = None
   \<and> trace (final (finish_order
       (count (count (new_handler ''lm'' [Fs_remove_all ''lm'', Fs_make_directory ''lm'']) 3) 2)))
       = [Fs_remove_all ''lm'', Fs_make_directory ''lm'',
          Fs_make_directory ''lm/0/'', Builder_new Unigram ''lm/0/'' 3,
          Builder_write Unigram ''lm/0/'', Builder_delete Unigram ''lm/0/'',
          Map_open ''lm/0'', Fs_make_directory ''lm/1'', Builder_new Middle ''lm/1'' 2]
   \<and> stage index_by_position ''lm'' True (final (finish_order
       (count (count (new_handler ''lm'' [Fs_remove_all ''lm'', Fs_make_directory ''lm'']) 3) 2)))
   \<and> active_builders (final (finish_order
       (count (count (new_handler ''lm'' [Fs_remove_all ''lm'', Fs_make_directory ''lm'']) 3) 2)))
       \<le> 1"
proof -
  let ?S = "count (count (new_handler ''lm'' [Fs_remove_all ''lm'', Fs_make_directory ''lm'']) 3) 2"
  have st: "stage index_by_position ''lm'' True ?S"
    by (intro stage_count stage_new)
  have ok: "failure (finish_order ?S) = None"
    by (simp add: two_order_header failure_def handler_defs Let_def to_string.simps)
  then have fo: "finish_order ?S = Inr (final (finish_order ?S))"
    by (rule ok_final)
  have st': "stage index_by_position ''lm'' True (final (finish_order ?S))"
    by (rule stage_finish [OF st fo])
  have o: "h_order ?S = 0" "h_prefix ?S = ''lm''"
    "trace ?S = [Fs_remove_all ''lm'', Fs_make_directory ''lm'',
                 Fs_make_directory ''lm/0/'', Builder_new Unigram ''lm/0/'' 3]"
    "unigram_builder ?S = Some \<lparr>prefix = ''lm/0/'', num_keys = 3, entries = []\<rparr>"
    by (simp_all add: two_order_header)
  from one_builder_at_a_time [OF st] have a: "active_builders ?S \<le> 1" "one_at_a_time (trace ?S)"
    by blast+
  from one_builder_at_a_time [OF st'] have b: "active_builders (final (finish_order ?S)) \<le> 1"
    by blast
  from one_builder_at_a_time [OF st] o(1) fo
  have u: "unigram_builder (final (finish_order ?S)) = None"
    by blast
  have t: "trace (final (finish_order ?S)) =
      [Fs_remove_all ''lm'', Fs_make_directory ''lm'',
       Fs_make_directory ''lm/0/'', Builder_new Unigram ''lm/0/'' 3,
       Builder_write Unigram ''lm/0/'', Builder_delete Unigram ''lm/0/'',
       Map_open ''lm/0'', Fs_make_directory ''lm/1'', Builder_new Middle ''lm/1'' 2]"
    by (simp add: two_order_header final_def handler_defs Let_def to_string.simps)
  from a b u t st st' ok o(1) show ?thesis
    by simp
qed

subsection \<open>The orders a build writes\<close>





















end
